theory Spec2Isabelle
  imports Complex_Main "HOL-Library.Char_ord" "HOL-Library.List_Lexorder"
begin

section \<open>Python values shared by the modules\<close>

text \<open>
  A dictionary field read with \<open>.get\<close> is an option: \<open>None\<close> stands for a missing key as
  well as for a stored null.  American prices, which the code passes through
  \<open>int(...)\<close>, are integers.

  Every Python float and int is a real number, and numbers are modelled as reals.  The
  float arithmetic of the program is a parameter \<open>ar\<close>: each float operation of the source
  (\<open>+\<close>, \<open>-\<close>, \<open>*\<close>, \<open>/\<close>, the conversion of a decimal literal such as \<open>0.1\<close>) yields
  \<open>rnd ar\<close> of the exact result, in the order in which the source evaluates;
  \<open>py_sum ar\<close> is the built-in \<open>sum\<close> of a list and \<open>pow_half ar\<close> is \<open>x ** 0.5\<close>.
  The program runs with the rounding to the nearest double; \<open>exact_arith\<close> rounds
  nothing.  A statement that holds for every \<open>ar\<close> holds for both.  Integer counts and
  literals that are binary fractions (\<open>1.0\<close>, \<open>0.5\<close>, \<open>100\<close>) are exact.
\<close>

definition or0 :: "real option \<Rightarrow> real" where
  \<comment> \<open>\<open>x or 0\<close> on a number that may be None\<close>
  "or0 x = (case x of None \<Rightarrow> 0 | Some v \<Rightarrow> v)"

definition truthy_str :: "string option \<Rightarrow> bool" where
  \<comment> \<open>truth value of an optional string: None and the empty string are falsy\<close>
  "truthy_str s = (case s of None \<Rightarrow> False | Some t \<Rightarrow> t \<noteq> [])"

definition str_or_empty :: "string option \<Rightarrow> string" where
  \<comment> \<open>\<open>s or ""\<close>\<close>
  "str_or_empty s = (case s of None \<Rightarrow> [] | Some t \<Rightarrow> t)"

definition round_half_even :: "real \<Rightarrow> int" where
  "round_half_even y =
     (let f = \<lfloor>y\<rfloor>; d = y - of_int f
      in if d < 1 / 2 then f else if 1 / 2 < d then f + 1
         else if even f then f else f + 1)"

record arith =
  rnd :: "real \<Rightarrow> real"
  py_sum :: "real list \<Rightarrow> real"
  pow_half :: "real \<Rightarrow> real"

definition exact_arith :: arith where
  \<comment> \<open>arithmetic without rounding\<close>
  "exact_arith = \<lparr>rnd = (\<lambda>x. x), py_sum = sum_list, pow_half = sqrt\<rparr>"

definition float_rounding :: "arith \<Rightarrow> bool" where
  \<comment> \<open>what the theorems below need of a rounding: it is monotone and leaves 0 and 1
      alone, as rounding to the nearest float does\<close>
  "float_rounding ar \<longleftrightarrow>
     (\<forall>x y. x \<le> y \<longrightarrow> rnd ar x \<le> rnd ar y) \<and> rnd ar 0 = 0 \<and> rnd ar 1 = 1"

definition py_round :: "arith \<Rightarrow> real \<Rightarrow> nat \<Rightarrow> real" where
  \<comment> \<open>\<open>round(x, ndigits)\<close>: the float nearest to the decimal with \<open>ndigits\<close> digits that is
      nearest to the value of \<open>x\<close>, ties to even\<close>
  "py_round ar x nd = rnd ar (of_int (round_half_even (x * 10 ^ nd)) / 10 ^ nd)"

section \<open>services/projections.py: the stat extractor\<close>

record stat =
  points :: "real option"
  rebounds :: "real option"
  assists :: "real option"
  three_pointers_made :: "real option"
  steals :: "real option"
  blocks :: "real option"
  turnovers :: "real option"
  headshots :: "real option"
  first_kills :: "real option"
  passing_yards :: "real option"
  rushing_yards :: "real option"
  receptions :: "real option"
  receiving_yards :: "real option"
  passing_touchdowns :: "real option"
  rushing_touchdowns :: "real option"
  opponent :: "string option"

definition get_prop_value_from_stat :: "stat \<Rightarrow> string \<Rightarrow> real option" where
  "get_prop_value_from_stat st prop_type =
     (if prop_type = ''points'' then points st
      else if prop_type = ''rebounds'' then rebounds st
      else if prop_type = ''assists'' then assists st
      else if prop_type = ''pra'' then
        Some (or0 (points st) + or0 (rebounds st) + or0 (assists st))
      else if prop_type = ''threes'' then three_pointers_made st
      else if prop_type = ''steals'' then steals st
      else if prop_type = ''blocks'' then blocks st
      else if prop_type = ''turnovers'' then turnovers st
      else if prop_type = ''kills'' then points st
      else if prop_type = ''deaths'' then rebounds st
      else if prop_type = ''headshots'' then headshots st
      else if prop_type = ''first_kills'' then first_kills st
      else if prop_type = ''pass_yds'' then passing_yards st
      else if prop_type = ''rush_yds'' then rushing_yards st
      else if prop_type = ''receptions'' then receptions st
      else if prop_type = ''reception_yds'' then receiving_yards st
      else if prop_type = ''pass_tds'' then passing_touchdowns st
      else if prop_type = ''rush_tds'' then rushing_touchdowns st
      else None)"

section \<open>utils/ev.py\<close>

definition ev :: "arith \<Rightarrow> real \<Rightarrow> int \<Rightarrow> real option" where
  \<comment> \<open>None is the ZeroDivisionError of \<open>100 / (-american_odds)\<close> at odds 0\<close>
  "ev ar true_prob american_odds =
     (if american_odds > 0 then
        Some (rnd ar (rnd ar (true_prob * rnd ar (of_int american_odds / 100))
                        - rnd ar (1 - true_prob)))
      else if american_odds = 0 then None
      else Some (rnd ar (rnd ar (true_prob * rnd ar (100 / of_int (- american_odds)))
                           - rnd ar (1 - true_prob))))"

section \<open>workers/build_prop_feed_snapshots.py: edge and hit rate\<close>

record prop_quote =
  quote_id :: "string option"
  player_id :: "string option"
  game_id :: "string option"
  prop_type :: "string option"
  line :: "real option"
  over_price :: "int option"
  under_price :: "int option"
  book :: "string option"
  created_at :: "string option"

record edge_data =
  edge :: real
  side :: string
  prob :: real
  odds :: "int option"

record hit_rate =
  total_games :: nat
  over_pct :: real
  under_pct :: real
  pushes :: int
  over_count :: nat
  under_count :: nat

definition prop_values_of :: "stat list \<Rightarrow> string option \<Rightarrow> real list" where
  \<comment> \<open>the loop filling \<open>prop_values\<close>; a None prop type matches no branch of the extractor\<close>
  "prop_values_of stats pt =
     (case pt of None \<Rightarrow> []
      | Some t \<Rightarrow> List.map_filter (\<lambda>st. get_prop_value_from_stat st t) stats)"

definition hits_over :: "real \<Rightarrow> real list \<Rightarrow> nat" where
  "hits_over lin vs = length (filter (\<lambda>v. v > lin) vs)"

definition hits_under :: "real \<Rightarrow> real list \<Rightarrow> nat" where
  "hits_under lin vs = length (filter (\<lambda>v. v < lin) vs)"

definition smoothing :: "arith \<Rightarrow> real" where
  \<comment> \<open>the literal 0.1\<close>
  "smoothing ar = rnd ar (1 / 10)"

definition smoothed_over_prob :: "arith \<Rightarrow> real \<Rightarrow> real list \<Rightarrow> real" where
  "smoothed_over_prob ar lin vs =
     rnd ar (rnd ar (real (hits_over lin vs) + smoothing ar)
               / rnd ar (real (length vs) + rnd ar (smoothing ar * 2)))"

definition smoothed_under_prob :: "arith \<Rightarrow> real \<Rightarrow> real list \<Rightarrow> real" where
  "smoothed_under_prob ar lin vs =
     rnd ar (rnd ar (real (hits_under lin vs) + smoothing ar)
               / rnd ar (real (length vs) + rnd ar (smoothing ar * 2)))"

definition renormalized_probs :: "arith \<Rightarrow> real \<Rightarrow> real list \<Rightarrow> real \<times> real" where
  \<comment> \<open>\<open>(over_prob, under_prob)\<close> after the \<open>if total_prob > 0\<close> division\<close>
  "renormalized_probs ar lin vs =
     (let over_prob = smoothed_over_prob ar lin vs;
          under_prob = smoothed_under_prob ar lin vs;
          total_prob = rnd ar (over_prob + under_prob)
      in if total_prob > 0
         then (rnd ar (over_prob / total_prob), rnd ar (under_prob / total_prob))
         else (over_prob, under_prob))"

definition price_ev :: "arith \<Rightarrow> real \<Rightarrow> int option \<Rightarrow> real option" where
  \<comment> \<open>\<open>ev(p, int(price)) if price else None\<close>: a missing or zero price gives None,
      so \<open>ev\<close> is never called at odds 0 from here\<close>
  "price_ev ar p price =
     (case price of None \<Rightarrow> None
      | Some a \<Rightarrow> if a = 0 then None else ev ar p a)"

definition calculate_edge_and_hitrate ::
  "arith \<Rightarrow> prop_quote \<Rightarrow> stat list \<Rightarrow> edge_data option \<times> hit_rate option" where
  "calculate_edge_and_hitrate ar prop stats =
     (case line prop of
        None \<Rightarrow> (None, None)
      | Some lin \<Rightarrow>
          if stats = [] then (None, None)
          else
            let prop_values = prop_values_of stats (prop_type prop) in
            if prop_values = [] then (None, None)
            else
              let total = length prop_values;
                  ho = hits_over lin prop_values;
                  hu = hits_under lin prop_values;
                  (over_prob, under_prob) = renormalized_probs ar lin prop_values;
                  over_ev = price_ev ar over_prob (over_price prop);
                  under_ev = price_ev ar under_prob (under_price prop);
                  edge_res =
                    (case over_ev of
                       Some oe \<Rightarrow>
                         (case under_ev of
                            None \<Rightarrow> Some \<lparr>edge = oe, side = ''over'', prob = over_prob,
                                           odds = over_price prop\<rparr>
                          | Some ue \<Rightarrow>
                              if oe \<ge> ue
                              then Some \<lparr>edge = oe, side = ''over'', prob = over_prob,
                                         odds = over_price prop\<rparr>
                              else Some \<lparr>edge = ue, side = ''under'', prob = under_prob,
                                         odds = under_price prop\<rparr>)
                     | None \<Rightarrow>
                         (case under_ev of
                            None \<Rightarrow> None
                          | Some ue \<Rightarrow> Some \<lparr>edge = ue, side = ''under'', prob = under_prob,
                                              odds = under_price prop\<rparr>))
              in (edge_res,
                  Some \<lparr>total_games = total,
                        over_pct = py_round ar (rnd ar (rnd ar (real ho / real total) * 100)) 1,
                        under_pct = py_round ar (rnd ar (rnd ar (real hu / real total) * 100)) 1,
                        pushes = int total - int ho - int hu,
                        over_count = ho,
                        under_count = hu\<rparr>))"

section \<open>Python dictionaries in insertion order\<close>

text \<open>
  A dict is a list of key/value pairs with distinct keys, in the order the keys were
  first inserted; assigning to a present key replaces its value in place, which is the
  order \<open>dict.values()\<close> and \<open>dict.items()\<close> iterate in.
\<close>

fun dict_set :: "'k \<Rightarrow> 'v \<Rightarrow> ('k \<times> 'v) list \<Rightarrow> ('k \<times> 'v) list" where
  "dict_set k v [] = [(k, v)]"
| "dict_set k v ((k', v') # d) =
     (if k' = k then (k, v) # d else (k', v') # dict_set k v d)"

definition dict_get :: "('k \<times> 'v) list \<Rightarrow> 'k \<Rightarrow> 'v option" where
  "dict_get d k = map_of d k"

section \<open>workers/build_prop_feed_snapshots.py: deduplication\<close>

type_synonym feed_key = "string \<times> string \<times> string \<times> real \<times> string"

definition feed_key_of :: "prop_quote \<Rightarrow> feed_key option" where
  \<comment> \<open>None when the quote is skipped: a falsy id, prop type or book, or a null line\<close>
  "feed_key_of p =
     (if \<not> (truthy_str (player_id p) \<and> truthy_str (game_id p) \<and>
              truthy_str (prop_type p) \<and> truthy_str (book p)) then None
      else case line p of
             None \<Rightarrow> None
           | Some lin \<Rightarrow>
               Some (str_or_empty (player_id p), str_or_empty (game_id p),
                     str_or_empty (prop_type p), lin, str_or_empty (book p)))"

fun feed_dedupe_loop ::
  "(feed_key \<times> prop_quote) list \<Rightarrow> prop_quote list \<Rightarrow> (feed_key \<times> prop_quote) list" where
  "feed_dedupe_loop latest [] = latest"
| "feed_dedupe_loop latest (p # ps) =
     (case feed_key_of p of
        None \<Rightarrow> feed_dedupe_loop latest ps
      | Some key \<Rightarrow>
          (case dict_get latest key of
             None \<Rightarrow> feed_dedupe_loop (dict_set key p latest) ps
           | Some old \<Rightarrow>
               if str_or_empty (created_at p) > str_or_empty (created_at old)
               then feed_dedupe_loop (dict_set key p latest) ps
               else feed_dedupe_loop latest ps))"

definition feed_dedupe_props :: "prop_quote list \<Rightarrow> prop_quote list" where
  "feed_dedupe_props props = map snd (feed_dedupe_loop [] props)"

section \<open>workers/build_projection_snapshots.py: deduplication\<close>

type_synonym proj_key = "string \<times> string \<times> string"

definition proj_key_of :: "prop_quote \<Rightarrow> proj_key option" where
  "proj_key_of p =
     (if truthy_str (player_id p) \<and> truthy_str (game_id p) \<and> truthy_str (prop_type p)
      then Some (str_or_empty (player_id p), str_or_empty (game_id p),
                 str_or_empty (prop_type p))
      else None)"

fun projection_dedupe_loop ::
  "(proj_key \<times> prop_quote) list \<times> (proj_key \<times> real) list \<Rightarrow> prop_quote list \<Rightarrow>
   (proj_key \<times> prop_quote) list \<times> (proj_key \<times> real) list" where
  "projection_dedupe_loop (latest, bovada_lines) [] = (latest, bovada_lines)"
| "projection_dedupe_loop (latest, bovada_lines) (p # ps) =
     (case proj_key_of p of
        None \<Rightarrow> projection_dedupe_loop (latest, bovada_lines) ps
      | Some key \<Rightarrow>
          let latest' =
                (case dict_get latest key of
                   None \<Rightarrow> dict_set key p latest
                 | Some old \<Rightarrow>
                     if str_or_empty (created_at p) > str_or_empty (created_at old)
                     then dict_set key p latest else latest);
              bovada_lines' =
                (case line p of
                   Some lin \<Rightarrow>
                     if book p = Some ''Bovada'' then dict_set key lin bovada_lines
                     else bovada_lines
                 | None \<Rightarrow> bovada_lines)
          in projection_dedupe_loop (latest', bovada_lines') ps)"

definition projection_dedupe_props ::
  "prop_quote list \<Rightarrow> (proj_key \<times> prop_quote) list \<times> (proj_key \<times> real) list" where
  "projection_dedupe_props props = projection_dedupe_loop ([], []) props"

section \<open>The storage interface\<close>

text \<open>
  The relational store is an external service reached through a generic query
  interface.  Each read the engine performs is a field of \<open>db\<close>: the rows the query
  returns, in the order the query asks for, or \<open>None\<close> when the call raises.  Dates are
  day numbers; \<open>q_game_day\<close> is \<open>None\<close> whenever the game row, its start time or its
  parse is unavailable.
\<close>

datatype 'a field = Missing | Null | Val 'a

text \<open>
  A field of an injury row that the code reads with a default: the key may be missing
  from the row, hold a stored null, or hold a value.
\<close>

record injury =
  severity :: "string field"
  impact_percentage :: "real field"
  injury_type :: "string option"
  injury_notes :: "string option"

record db =
  q_bovada_lines :: "string \<Rightarrow> string \<Rightarrow> string \<Rightarrow> real option list option"
  q_recent_stats :: "string \<Rightarrow> nat \<Rightarrow> stat list option"
  q_matchup_stats :: "string \<Rightarrow> string \<Rightarrow> stat list option"
  q_home_away_stats :: "string \<Rightarrow> bool \<Rightarrow> stat list option"
  q_active_injuries :: "string \<Rightarrow> injury list option"
  q_opponent_games :: "string \<Rightarrow> stat list option"
  q_game_day :: "string \<Rightarrow> int option"
  q_last_game_days :: "string \<Rightarrow> int \<Rightarrow> int list option"
  q_dfs_lines :: "string \<Rightarrow> string \<Rightarrow> string \<Rightarrow> string \<Rightarrow> real option list option"

fun upsert_row :: "('r \<Rightarrow> 'k option) \<Rightarrow> 'r \<Rightarrow> 'r list \<Rightarrow> 'r list" where
  "upsert_row conflict r [] = [r]"
| "upsert_row conflict r (x # xs) =
     (if conflict r \<noteq> None \<and> conflict x = conflict r then r # xs
      else x # upsert_row conflict r xs)"

definition upsert :: "('r \<Rightarrow> 'k option) \<Rightarrow> 'r list \<Rightarrow> 'r list \<Rightarrow> 'r list" where
  \<comment> \<open>Modelled from the spec: the upsert-on-conflict-key of the generic query interface
      (section 6).  A row replaces the stored row with the same conflict key and is
      appended otherwise; a null key conflicts with nothing.\<close>
  "upsert conflict chunk table = foldl (\<lambda>t r. upsert_row conflict r t) table chunk"

definition chunks_of :: "nat \<Rightarrow> 'a list \<Rightarrow> 'a list list" where
  \<comment> \<open>\<open>rows[idx : idx + n] for idx in range(0, len(rows), n)\<close>\<close>
  "chunks_of n rows =
     map (\<lambda>i. take n (drop (i * n) rows)) [0 ..< (length rows + n - 1) div n]"

section \<open>services/projections.py: loaders and averages\<close>

definition load_player_recent_stats :: "db \<Rightarrow> string \<Rightarrow> string \<Rightarrow> nat \<Rightarrow> stat list" where
  "load_player_recent_stats d pid pt games =
     (case q_recent_stats d pid games of None \<Rightarrow> [] | Some rows \<Rightarrow> rows)"

definition load_matchup_stats :: "db \<Rightarrow> string \<Rightarrow> string \<Rightarrow> string \<Rightarrow> stat list" where
  "load_matchup_stats d pid opp pt =
     (case q_matchup_stats d pid opp of None \<Rightarrow> [] | Some rows \<Rightarrow> rows)"

definition load_home_away_stats :: "db \<Rightarrow> string \<Rightarrow> string \<Rightarrow> bool \<Rightarrow> stat list" where
  "load_home_away_stats d pid pt home =
     (case q_home_away_stats d pid home of None \<Rightarrow> [] | Some rows \<Rightarrow> rows)"

fun weighted_loop ::
  "arith \<Rightarrow> nat \<Rightarrow> string \<Rightarrow> real \<Rightarrow> nat \<Rightarrow> stat list \<Rightarrow> real \<times> real \<Rightarrow> real \<times> real" where
  \<comment> \<open>the \<open>enumerate\<close> loop: \<open>n\<close> is \<open>len(stats)\<close>, \<open>i\<close> the index of the next record,
      the pair is \<open>(total_weighted_value, total_weight)\<close>\<close>
  "weighted_loop ar n pt rw i [] acc = acc"
| "weighted_loop ar n pt rw i (st # rest) (tv, tw) =
     (case get_prop_value_from_stat st pt of
        None \<Rightarrow> weighted_loop ar n pt rw (Suc i) rest (tv, tw)
      | Some v \<Rightarrow>
          let weight = rnd ar (1 + rnd ar (real (n - i) * rw))
          in weighted_loop ar n pt rw (Suc i) rest
               (rnd ar (tv + rnd ar (v * weight)), rnd ar (tw + weight)))"

definition calculate_weighted_average ::
  "arith \<Rightarrow> stat list \<Rightarrow> string \<Rightarrow> real \<Rightarrow> real option" where
  "calculate_weighted_average ar stats pt recency_weight =
     (if stats = [] then None
      else
        let (total_weighted_value, total_weight) =
              weighted_loop ar (length stats) pt recency_weight 0 stats (0, 0)
        in if total_weight = 0 then None
           else Some (rnd ar (total_weighted_value / total_weight)))"

definition falsy_num :: "real option \<Rightarrow> bool" where
  \<comment> \<open>\<open>not x\<close> on a number that may be None\<close>
  "falsy_num x = (case x of None \<Rightarrow> True | Some v \<Rightarrow> v = 0)"

definition calculate_opponent_adjustment ::
  "arith \<Rightarrow> db \<Rightarrow> string \<Rightarrow> string \<Rightarrow> string \<Rightarrow> real" where
  \<comment> \<open>the averages use the default recency weight, the literal 0.1\<close>
  "calculate_opponent_adjustment ar d pid opp pt =
     (let all_stats = load_player_recent_stats d pid pt 20;
          overall_avg = calculate_weighted_average ar all_stats pt (rnd ar (1 / 10))
      in if falsy_num overall_avg then 1
         else
           let matchup_rows = load_matchup_stats d pid opp pt;
               matchup_avg = calculate_weighted_average ar matchup_rows pt (rnd ar (1 / 10))
           in if falsy_num matchup_avg then 1
              else rnd ar (or0 matchup_avg / or0 overall_avg))"

definition calculate_home_away_adjustment ::
  "arith \<Rightarrow> db \<Rightarrow> string \<Rightarrow> string \<Rightarrow> bool \<Rightarrow> real" where
  "calculate_home_away_adjustment ar d pid pt is_home =
     (let home_avg = calculate_weighted_average ar (load_home_away_stats d pid pt True) pt
                       (rnd ar (1 / 10));
          away_avg = calculate_weighted_average ar (load_home_away_stats d pid pt False) pt
                       (rnd ar (1 / 10))
      in if falsy_num home_avg \<or> falsy_num away_avg then 1
         else
           let overall_avg = rnd ar (rnd ar (or0 home_avg + or0 away_avg) / 2)
           in if overall_avg = 0 then 1
              else if is_home then rnd ar (or0 home_avg / overall_avg)
              else rnd ar (or0 away_avg / overall_avg))"

section \<open>services/projections.py: injury status\<close>

definition lower_char :: "char \<Rightarrow> char" where
  "lower_char c =
     (if CHR ''A'' \<le> c \<and> c \<le> CHR ''Z'' then char_of (of_char c + (32::nat)) else c)"

definition py_lower :: "string \<Rightarrow> string" where
  \<comment> \<open>\<open>str.lower()\<close> on ASCII text\<close>
  "py_lower s = map lower_char s"

record injury_info =
  status :: string
  info_severity :: "string option"
  impact_multiplier :: real
  info_injury_type :: "string option"
  info_notes :: "string option"

definition healthy :: injury_info where
  "healthy = \<lparr>status = ''healthy'', info_severity = None, impact_multiplier = 1,
              info_injury_type = None, info_notes = None\<rparr>"

definition severity_impact :: "string \<Rightarrow> real" where
  \<comment> \<open>the value \<open>impact_pct\<close> has after the severity chain when it was 0 before\<close>
  "severity_impact sev =
     (if sev = ''out'' then 100
      else if sev = ''doubtful'' then 50
      else if sev = ''questionable'' then 25
      else if sev = ''probable'' then 10
      else 0)"

definition severity_text :: "string field \<Rightarrow> string option" where
  \<comment> \<open>\<open>injury.get("severity", "").lower()\<close>: a missing key reads as the empty string;
      None is the AttributeError that \<open>.lower()\<close> raises on a stored null\<close>
  "severity_text sv =
     (case sv of Missing \<Rightarrow> Some [] | Null \<Rightarrow> None | Val s \<Rightarrow> Some (py_lower s))"

definition stored_impact :: "real field \<Rightarrow> real" where
  \<comment> \<open>\<open>injury.get("impact_percentage", 0) or 0\<close>\<close>
  "stored_impact p = (case p of Missing \<Rightarrow> 0 | Null \<Rightarrow> 0 | Val v \<Rightarrow> v)"

definition get_injury_status :: "arith \<Rightarrow> db \<Rightarrow> string \<Rightarrow> injury_info" where
  \<comment> \<open>a failing query and the AttributeError on a null severity are both caught by the
      bare \<open>except\<close>, which returns the healthy record\<close>
  "get_injury_status ar d pid =
     (case q_active_injuries d pid of
        None \<Rightarrow> healthy
      | Some [] \<Rightarrow> healthy
      | Some (ir # _) \<Rightarrow>
          (case severity_text (severity ir) of
             None \<Rightarrow> healthy
           | Some sev \<Rightarrow>
               let impact_pct0 = stored_impact (impact_percentage ir);
                   impact_pct = (if impact_pct0 = 0 then severity_impact sev else impact_pct0);
                   multiplier = rnd ar (1 - rnd ar (impact_pct / 100))
               in \<lparr>status = (if sev = [] then ''injured'' else sev),
                   info_severity = Some sev,
                   impact_multiplier = max 0 (min 1 multiplier),
                   info_injury_type = injury_type ir,
                   info_notes = injury_notes ir\<rparr>))"

section \<open>services/projections.py: adjustments\<close>

definition get_bovada_line :: "db \<Rightarrow> string \<Rightarrow> string \<Rightarrow> string \<Rightarrow> real option" where
  "get_bovada_line d pid gid pt =
     (case q_bovada_lines d pid gid pt of
        None \<Rightarrow> None
      | Some [] \<Rightarrow> None
      | Some (l # _) \<Rightarrow> l)"

definition defense_value :: "stat \<Rightarrow> string \<Rightarrow> real option" where
  "defense_value g pt =
     (if pt = ''points'' then points g
      else if pt = ''rebounds'' then rebounds g
      else if pt = ''assists'' then assists g
      else if pt = ''pra'' then Some (or0 (points g) + or0 (rebounds g) + or0 (assists g))
      else None)"

definition defense_prop_values :: "stat list \<Rightarrow> string \<Rightarrow> real list" where
  \<comment> \<open>the values the loop appends: not None and positive\<close>
  "defense_prop_values games pt =
     filter (\<lambda>v. v > 0) (List.map_filter (\<lambda>g. defense_value g pt) games)"

definition league_average :: "arith \<Rightarrow> string \<Rightarrow> real" where
  \<comment> \<open>\<open>league_averages.get(prop_type, 10.0)\<close>\<close>
  "league_average ar pt =
     (if pt = ''points'' then 12
      else if pt = ''rebounds'' then 5
      else if pt = ''assists'' then 7 / 2
      else if pt = ''pra'' then 41 / 2
      else if pt = ''threes'' then rnd ar (9 / 5)
      else 10)"

definition calculate_opponent_defense_rating :: "arith \<Rightarrow> db \<Rightarrow> string \<Rightarrow> string \<Rightarrow> real" where
  "calculate_opponent_defense_rating ar d opp pt =
     (case q_opponent_games d opp of
        None \<Rightarrow> 1
      | Some opponent_games \<Rightarrow>
          if length opponent_games < 10 then 1
          else
            let prop_values = defense_prop_values opponent_games pt in
            if length prop_values < 5 then 1
            else
              let avg_allowed = rnd ar (py_sum ar prop_values / real (length prop_values));
                  league_avg = league_average ar pt
              in if league_avg > 0
                 then max (rnd ar (85 / 100))
                        (min (rnd ar (115 / 100)) (rnd ar (avg_allowed / league_avg)))
                 else 1)"

definition get_player_rest_days :: "db \<Rightarrow> string \<Rightarrow> int \<Rightarrow> int" where
  "get_player_rest_days d pid game_day =
     (case q_last_game_days d pid game_day of
        None \<Rightarrow> 2
      | Some [] \<Rightarrow> 2
      | Some (last_day # _) \<Rightarrow> max 0 (game_day - last_day))"

definition calculate_rest_adjustment :: "arith \<Rightarrow> int \<Rightarrow> real" where
  "calculate_rest_adjustment ar rd =
     (if rd = 0 then rnd ar (95 / 100)
      else if rd = 1 then rnd ar (98 / 100)
      else if rd \<ge> 3 then rnd ar (102 / 100)
      else 1)"

definition calculate_pace_adjustment :: "string \<Rightarrow> string \<Rightarrow> real" where
  "calculate_pace_adjustment gid pt = 1"

section \<open>services/projections.py: the projection builder\<close>

record factor_breakdown =
  baseline :: real
  factors_baseline_source :: string
  player_avg :: real
  defense_adjustment :: real
  matchup_adjustment :: real
  home_away_adjustment :: real
  injury_adjustment :: real
  rest_adjustment :: real
  rest_days :: "int option"
  pace_adjustment :: real

text \<open>
  The returned dict.  A key the null result does not carry (\<open>injury_status\<close>,
  \<open>baseline_source\<close>, \<open>bovada_line\<close>) reads as \<open>None\<close>, as \<open>.get\<close> does on it, and
  \<open>factors = None\<close> is the empty dict.
\<close>

record projection =
  projected_line :: "real option"
  confidence :: real
  factors :: "factor_breakdown option"
  sample_size :: nat
  injury_status :: "string option"
  baseline_source :: "string option"
  bovada_line :: "real option"

definition factor :: "(factor_breakdown \<Rightarrow> 'a) \<Rightarrow> projection \<Rightarrow> 'a option" where
  \<comment> \<open>\<open>projection["factors"].get(name)\<close>: None on the empty dict\<close>
  "factor name pr = map_option name (factors pr)"

definition null_projection :: projection where
  "null_projection =
     \<lparr>projected_line = None, confidence = 0, factors = None, sample_size = 0,
      injury_status = None, baseline_source = None, bovada_line = None\<rparr>"

definition effective_bovada_line ::
  "db \<Rightarrow> string \<Rightarrow> string \<Rightarrow> string option \<Rightarrow> real option \<Rightarrow> real option" where
  \<comment> \<open>\<open>if bovada_line is None and game_id: bovada_line = get_bovada_line(...)\<close>\<close>
  "effective_bovada_line d pid pt gid supplied =
     (case supplied of
        Some b \<Rightarrow> Some b
      | None \<Rightarrow>
          if truthy_str gid then get_bovada_line d pid (str_or_empty gid) pt else None)"

definition projection_confidence :: "arith \<Rightarrow> stat list \<Rightarrow> string \<Rightarrow> real" where
  "projection_confidence ar recent pt =
     (let n = length recent;
          conf = min 1 (rnd ar (real n / 15))
      in if n \<ge> 5 then
           let vals = List.map_filter (\<lambda>st. get_prop_value_from_stat st pt) (take 10 recent)
           in if length vals \<ge> 3 then
                let avg = rnd ar (py_sum ar vals / real (length vals));
                    variance =
                      rnd ar (py_sum ar (map (\<lambda>v. rnd ar ((rnd ar (v - avg)) ^ 2)) vals)
                                / real (length vals));
                    std_dev = pow_half ar variance
                in if avg > 0
                   then rnd ar (conf * max (1 / 2)
                                         (rnd ar (1 - rnd ar (rnd ar (std_dev / avg) * (1 / 2)))))
                   else conf
              else conf
         else conf)"

definition recent_average :: "arith \<Rightarrow> stat list \<Rightarrow> string \<Rightarrow> real option" where
  \<comment> \<open>\<open>player_avg\<close>: the weighted average with recency weight 0.15, None without stats\<close>
  "recent_average ar recent pt =
     (if recent \<noteq> [] then calculate_weighted_average ar recent pt (rnd ar (15 / 100))
      else None)"

definition choose_baseline :: "real option \<Rightarrow> real option \<Rightarrow> (real \<times> string) option" where
  \<comment> \<open>\<open>(base_projection, baseline_source)\<close>, or None on the branch that returns the
      null result\<close>
  "choose_baseline bovada pavg =
     (case bovada of
        Some b \<Rightarrow> Some (b, ''bovada'')
      | None \<Rightarrow> (case pavg of Some a \<Rightarrow> Some (a, ''player_avg'') | None \<Rightarrow> None))"

definition adjusted_projection ::
  "arith \<Rightarrow> db \<Rightarrow> string \<Rightarrow> string \<Rightarrow> string option \<Rightarrow> bool \<Rightarrow> string option \<Rightarrow>
   real option \<Rightarrow> stat list \<Rightarrow> real option \<Rightarrow> real \<Rightarrow> string \<Rightarrow> projection" where
  \<comment> \<open>the function body after the baseline has been chosen; \<open>base1\<close> to \<open>base6\<close> are the
      values of \<open>base_projection\<close> after each \<open>*=\<close>, which runs only inside its \<open>if\<close>\<close>
  "adjusted_projection ar d pid pt opp is_home gid bovada recent pavg base0 source =
     (let defense_adj =
            (if truthy_str opp
             then calculate_opponent_defense_rating ar d (str_or_empty opp) pt else 1);
          base1 = (if truthy_str opp then rnd ar (base0 * defense_adj) else base0);
          matchup_adj =
            (if truthy_str opp
             then calculate_opponent_adjustment ar d pid (str_or_empty opp) pt else 1);
          base2 = (if truthy_str opp then rnd ar (base1 * matchup_adj) else base1);
          home_away_adj = calculate_home_away_adjustment ar d pid pt is_home;
          base3 = rnd ar (base2 * home_away_adj);
          inj_status = get_injury_status ar d pid;
          base4 = rnd ar (base3 * impact_multiplier inj_status);
          rest =
            (if truthy_str gid then
               (case q_game_day d (str_or_empty gid) of
                  None \<Rightarrow> None
                | Some day \<Rightarrow> Some (get_player_rest_days d pid day))
             else None);
          rest_adj = (case rest of None \<Rightarrow> 1 | Some rd \<Rightarrow> calculate_rest_adjustment ar rd);
          base5 = (case rest of None \<Rightarrow> base4 | Some rd \<Rightarrow> rnd ar (base4 * rest_adj));
          pace_adj =
            (if truthy_str gid then calculate_pace_adjustment (str_or_empty gid) pt
             else 1);
          base6 = (if truthy_str gid then rnd ar (base5 * pace_adj) else base5)
      in \<lparr>projected_line = Some (py_round ar base6 1),
          confidence = py_round ar (projection_confidence ar recent pt) 2,
          factors = Some
            \<lparr>baseline = base0, factors_baseline_source = source,
             player_avg = or0 pavg, defense_adjustment = defense_adj,
             matchup_adjustment = matchup_adj,
             home_away_adjustment = home_away_adj,
             injury_adjustment = impact_multiplier inj_status,
             rest_adjustment = rest_adj, rest_days = rest,
             pace_adjustment = pace_adj\<rparr>,
          sample_size = length recent,
          injury_status = Some (status inj_status),
          baseline_source = Some source,
          bovada_line = bovada\<rparr>)"

definition calculate_projection ::
  "arith \<Rightarrow> db \<Rightarrow> string \<Rightarrow> string \<Rightarrow> string option \<Rightarrow> bool \<Rightarrow> string option \<Rightarrow>
   real option \<Rightarrow> projection" where
  "calculate_projection ar d pid pt opp is_home gid supplied =
     (let bovada = effective_bovada_line d pid pt gid supplied;
          recent = load_player_recent_stats d pid pt 15;
          pavg = recent_average ar recent pt
      in case choose_baseline bovada pavg of
           None \<Rightarrow> null_projection
         | Some (base0, source) \<Rightarrow>
             adjusted_projection ar d pid pt opp is_home gid bovada recent pavg base0 source)"

section \<open>The snapshot builders: shared parts\<close>

record player =
  player_name :: "string option"
  team :: "string option"
  position :: "string option"
  sport :: "string option"

record game =
  home_team :: "string option"
  away_team :: "string option"

definition resolve_matchup :: "string option \<Rightarrow> game option \<Rightarrow> string option \<times> bool option" where
  "resolve_matchup player_team g =
     (case g of
        None \<Rightarrow> (None, None)
      | Some gm \<Rightarrow>
          let (opp, is_home) =
                (if truthy_str player_team then
                   if player_team = home_team gm then (away_team gm, Some True)
                   else if player_team = away_team gm then (home_team gm, Some False)
                   else (None, None)
                 else (None, None))
          in if opp = None then
               let opp' = (if truthy_str (away_team gm) then away_team gm else home_team gm)
               in (opp', Some (opp' = away_team gm))
             else (opp, is_home))"

definition sport_of :: "(string \<Rightarrow> player option) \<Rightarrow> prop_quote \<Rightarrow> string option" where
  \<comment> \<open>\<open>players_map.get(prop.get("player_id"), {}).get("sport")\<close>\<close>
  "sport_of players_map p =
     (case player_id p of
        None \<Rightarrow> None
      | Some pid \<Rightarrow> (case players_map pid of None \<Rightarrow> None | Some pl \<Rightarrow> sport pl))"

definition filter_by_sport ::
  "string option \<Rightarrow> (string \<Rightarrow> player option) \<Rightarrow> prop_quote list \<Rightarrow> prop_quote list" where
  "filter_by_sport sport_arg players_map props =
     (if truthy_str sport_arg then
        if sport_arg = Some ''Esports'' then
          filter (\<lambda>p. sport_of players_map p \<in>
                      {Some ''CS2'', Some ''LoL'', Some ''Dota2'', Some ''Valorant''}) props
        else filter (\<lambda>p. sport_of players_map p = sport_arg) props
      else props)"

section \<open>workers/build_projection_snapshots.py: the builder\<close>

record snapshot =
  snap_player_id :: string
  snap_game_id :: string
  snap_sport :: "string option"
  snap_prop_type :: string
  snap_opponent :: "string option"
  snap_is_home :: "bool option"
  snap_projected_line :: real
  snap_confidence :: real
  snap_baseline_source :: "string option"
  snap_bovada_line :: "real option"
  snap_factors :: "factor_breakdown option"
  snap_sample_size :: nat
  snap_injury_status :: "string option"
  snap_rest_days :: "int option"
  source_prop_id :: "string option"
  snapshot_version :: string
  snap_snapshot_at :: string
  snap_created_at :: string
  snap_updated_at :: string

definition snapshot_key :: "snapshot \<Rightarrow> proj_key option" where
  \<comment> \<open>the conflict target \<open>player_id,game_id,prop_type\<close>\<close>
  "snapshot_key r = Some (snap_player_id r, snap_game_id r, snap_prop_type r)"

definition projection_for ::
  "arith \<Rightarrow> db \<Rightarrow> (string \<Rightarrow> player option) \<Rightarrow> (string \<Rightarrow> game option) \<Rightarrow>
   (proj_key \<times> real) list \<Rightarrow> proj_key \<Rightarrow> projection option" where
  \<comment> \<open>the projection the loop computes for a key; None when the player or the game is
      missing and the key is skipped before any projection is made\<close>
  "projection_for ar d players_map games_map bovada_lines key =
     (case key of (pid, gid, pt) \<Rightarrow>
        (case players_map pid of
           None \<Rightarrow> None
         | Some pl \<Rightarrow>
             (case games_map gid of
                None \<Rightarrow> None
              | Some gm \<Rightarrow>
                  let (opp, is_home) = resolve_matchup (team pl) (Some gm)
                  in Some (calculate_projection ar d pid pt opp
                             (case is_home of None \<Rightarrow> True | Some h \<Rightarrow> h)
                             (Some gid) (dict_get bovada_lines key)))))"

definition snapshot_for ::
  "arith \<Rightarrow> db \<Rightarrow> (string \<Rightarrow> player option) \<Rightarrow> (string \<Rightarrow> game option) \<Rightarrow> string \<Rightarrow>
   (proj_key \<times> real) list \<Rightarrow> proj_key \<times> prop_quote \<Rightarrow> snapshot option" where
  \<comment> \<open>one iteration of the loop over \<open>latest_props.items()\<close>: None is \<open>continue\<close>\<close>
  "snapshot_for ar d players_map games_map now_iso bovada_lines entry =
     (case entry of ((pid, gid, pt), prop) \<Rightarrow>
        (case players_map pid of
           None \<Rightarrow> None
         | Some pl \<Rightarrow>
             (case games_map gid of
                None \<Rightarrow> None
              | Some gm \<Rightarrow>
                  let (opp, is_home) = resolve_matchup (team pl) (Some gm);
                      proj = calculate_projection ar d pid pt opp
                               (case is_home of None \<Rightarrow> True | Some h \<Rightarrow> h)
                               (Some gid) (dict_get bovada_lines (pid, gid, pt))
                  in (case projected_line proj of
                        None \<Rightarrow> None
                      | Some pl_line \<Rightarrow>
                          Some \<lparr>snap_player_id = pid, snap_game_id = gid,
                                snap_sport = sport pl, snap_prop_type = pt,
                                snap_opponent = opp, snap_is_home = is_home,
                                snap_projected_line = pl_line,
                                snap_confidence = confidence proj,
                                snap_baseline_source = baseline_source proj,
                                snap_bovada_line = bovada_line proj,
                                snap_factors = factors proj,
                                snap_sample_size = sample_size proj,
                                snap_injury_status = injury_status proj,
                                snap_rest_days =
                                  (case factors proj of None \<Rightarrow> None
                                   | Some f \<Rightarrow> rest_days f),
                                source_prop_id = quote_id prop,
                                snapshot_version = ''v1'',
                                snap_snapshot_at = now_iso,
                                snap_created_at = now_iso,
                                snap_updated_at = now_iso\<rparr>))))"

definition projection_snapshot_rows ::
  "arith \<Rightarrow> db \<Rightarrow> (string \<Rightarrow> player option) \<Rightarrow> (string \<Rightarrow> game option) \<Rightarrow>
   string option \<Rightarrow> string \<Rightarrow> prop_quote list \<Rightarrow> snapshot list" where
  \<comment> \<open>\<open>snapshots_to_upsert\<close> of a run on the fetched quotes\<close>
  "projection_snapshot_rows ar d players_map games_map sport_arg now_iso fetched =
     (let props = filter_by_sport sport_arg players_map fetched;
          (latest_props, bovada_lines) = projection_dedupe_props props
      in List.map_filter (snapshot_for ar d players_map games_map now_iso bovada_lines)
           latest_props)"

definition projection_build_snapshots ::
  "arith \<Rightarrow> db \<Rightarrow> (string \<Rightarrow> player option) \<Rightarrow> (string \<Rightarrow> game option) \<Rightarrow>
   string option \<Rightarrow> string \<Rightarrow> prop_quote list \<Rightarrow> snapshot list \<Rightarrow> snapshot list" where
  \<comment> \<open>the table \<open>player_projection_snapshots\<close> after a run\<close>
  "projection_build_snapshots ar d players_map games_map sport_arg now_iso fetched table =
     foldl (\<lambda>t chunk. upsert snapshot_key chunk t) table
       (chunks_of 100
          (projection_snapshot_rows ar d players_map games_map sport_arg now_iso fetched))"

section \<open>services/line_helpers.py\<close>

definition get_scraped_dfs_line :: "db \<Rightarrow> string \<Rightarrow> string \<Rightarrow> string \<Rightarrow> string \<Rightarrow> real option" where
  "get_scraped_dfs_line d pid gid pt source =
     (case q_dfs_lines d pid gid pt source of
        None \<Rightarrow> None
      | Some [] \<Rightarrow> None
      | Some (l # _) \<Rightarrow> l)"

definition adjust_for_dfs_line :: "arith \<Rightarrow> real \<Rightarrow> string \<Rightarrow> real" where
  "adjust_for_dfs_line ar book_line pt =
     (let adjustment =
            (if pt = ''points'' then 3 / 2
             else if pt = ''rebounds'' then 1
             else if pt = ''assists'' then 1
             else if pt = ''pra'' then 5 / 2
             else if pt = ''threes'' then 1 / 2
             else 1);
          dfs_line = rnd ar (book_line + adjustment)
      in rnd ar (of_int (round_half_even (rnd ar (dfs_line * 2))) / 2))"

section \<open>workers/build_prop_feed_snapshots.py: the builder\<close>

record matchup_stats =
  avg_vs_opponent :: real
  games :: nat

definition build_sparkline_values :: "stat list \<Rightarrow> string \<Rightarrow> nat \<Rightarrow> real list" where
  "build_sparkline_values stats pt limit =
     List.map_filter (\<lambda>st. get_prop_value_from_stat st pt) (rev (take limit stats))"

definition calculate_matchup_stats ::
  "arith \<Rightarrow> stat list \<Rightarrow> string option \<Rightarrow> string \<Rightarrow> matchup_stats option" where
  "calculate_matchup_stats ar stats opp pt =
     (if stats = [] \<or> \<not> truthy_str opp then None
      else
        let vals = List.map_filter (\<lambda>st. get_prop_value_from_stat st pt)
                     (filter (\<lambda>st. opponent st = opp) stats)
        in if vals = [] then None
           else Some \<lparr>avg_vs_opponent = rnd ar (py_sum ar vals / real (length vals)),
                      games = length vals\<rparr>)"

record projection_meta =
  meta_injury_status :: "string option"
  meta_rest_days :: "int option"
  meta_factors :: "factor_breakdown option"

record feed_row =
  row_prop_id :: "string option"
  row_player_id :: string
  row_game_id :: string
  row_sport :: "string option"
  row_player_name :: "string option"
  row_team :: "string option"
  row_opponent :: "string option"
  row_is_home :: "bool option"
  row_prop_type :: string
  row_line :: "real option"
  row_over_price :: "int option"
  row_under_price :: "int option"
  row_book :: "string option"
  row_projection_line :: "real option"
  row_projection_confidence :: "real option"
  row_projection_baseline :: "string option"
  row_projection_bovada_line :: "real option"
  row_edge :: "real option"
  row_edge_side :: "string option"
  row_edge_prob :: "real option"
  row_ev_odds :: "int option"
  row_hitrate_over_pct :: "real option"
  row_hitrate_under_pct :: "real option"
  row_hitrate_games :: "nat option"
  row_dfs_line :: "real option"
  row_snapshot_at :: string
  row_source_prop_created_at :: "string option"
  meta_edge :: "edge_data option"
  meta_hit_rate :: "hit_rate option"
  meta_sparkline_values :: "real list"
  meta_matchup_stats :: "matchup_stats option"
  meta_player_position :: "string option"
  meta_projection_snapshot :: "projection_meta option"
  row_created_at :: string
  row_updated_at :: string

definition feed_row_key :: "feed_row \<Rightarrow> (string \<times> string \<times> string \<times> real option \<times> string option)" where
  \<comment> \<open>the (player, game, prop-category, line, book) columns of a stored row\<close>
  "feed_row_key r =
     (row_player_id r, row_game_id r, row_prop_type r, row_line r, row_book r)"

definition dfs_line_for ::
  "arith \<Rightarrow> db \<Rightarrow> string \<Rightarrow> string \<Rightarrow> string \<Rightarrow> real option \<Rightarrow> real option" where
  "dfs_line_for ar d pid gid pt ln0 =
     (case ln0 of
        None \<Rightarrow> None
      | Some lin \<Rightarrow>
          (case get_scraped_dfs_line d pid gid pt ''prizepicks'' of
             Some v \<Rightarrow> Some v
           | None \<Rightarrow>
               (case get_scraped_dfs_line d pid gid pt ''underdog'' of
                  Some v \<Rightarrow> Some v
                | None \<Rightarrow> Some (adjust_for_dfs_line ar lin pt))))"

definition feed_row_for ::
  "arith \<Rightarrow> db \<Rightarrow> (string \<Rightarrow> player option) \<Rightarrow> (string \<Rightarrow> game option) \<Rightarrow>
   (string \<Rightarrow> stat list) \<Rightarrow> (proj_key \<Rightarrow> snapshot option) \<Rightarrow> string \<Rightarrow> prop_quote \<Rightarrow>
   feed_row option" where
  \<comment> \<open>one iteration of the loop over the deduplicated quotes: None is \<open>continue\<close>;
      \<open>stats_map pid\<close> is \<open>stats_map.get(player_id, [])\<close>\<close>
  "feed_row_for ar d players_map games_map stats_map projection_map now_iso prop =
     (case proj_key_of prop of
        None \<Rightarrow> None
      | Some (pid, gid, pt) \<Rightarrow>
          (case players_map pid of
             None \<Rightarrow> None
           | Some pl \<Rightarrow>
               (case games_map gid of
                  None \<Rightarrow> None
                | Some gm \<Rightarrow>
                    let stats = stats_map pid;
                        (edge_res, hr) = calculate_edge_and_hitrate ar prop stats;
                        (opp, is_home) = resolve_matchup (team pl) (Some gm);
                        proj = projection_map (pid, gid, pt)
                    in Some
                         \<lparr>row_prop_id = quote_id prop,
                          row_player_id = pid,
                          row_game_id = gid,
                          row_sport = sport pl,
                          row_player_name = player_name pl,
                          row_team = team pl,
                          row_opponent = opp,
                          row_is_home = is_home,
                          row_prop_type = pt,
                          row_line = line prop,
                          row_over_price = over_price prop,
                          row_under_price = under_price prop,
                          row_book = book prop,
                          row_projection_line = map_option snap_projected_line proj,
                          row_projection_confidence = map_option snap_confidence proj,
                          row_projection_baseline = Option.bind proj snap_baseline_source,
                          row_projection_bovada_line = Option.bind proj snap_bovada_line,
                          row_edge = map_option edge edge_res,
                          row_edge_side = map_option side edge_res,
                          row_edge_prob = map_option prob edge_res,
                          row_ev_odds = Option.bind edge_res odds,
                          row_hitrate_over_pct = map_option over_pct hr,
                          row_hitrate_under_pct = map_option under_pct hr,
                          row_hitrate_games = map_option total_games hr,
                          row_dfs_line = dfs_line_for ar d pid gid pt (line prop),
                          row_snapshot_at = now_iso,
                          row_source_prop_created_at = created_at prop,
                          meta_edge = edge_res,
                          meta_hit_rate = hr,
                          meta_sparkline_values = build_sparkline_values stats pt 10,
                          meta_matchup_stats = calculate_matchup_stats ar stats opp pt,
                          meta_player_position = position pl,
                          meta_projection_snapshot =
                            map_option
                              (\<lambda>sn. \<lparr>meta_injury_status = snap_injury_status sn,
                                     meta_rest_days = snap_rest_days sn,
                                     meta_factors = snap_factors sn\<rparr>) proj,
                          row_created_at = now_iso,
                          row_updated_at = now_iso\<rparr>)))"

definition feed_snapshot_rows ::
  "arith \<Rightarrow> db \<Rightarrow> (string \<Rightarrow> player option) \<Rightarrow> (string \<Rightarrow> game option) \<Rightarrow> (string \<Rightarrow> stat list) \<Rightarrow>
   (proj_key \<Rightarrow> snapshot option) \<Rightarrow> string option \<Rightarrow> string \<Rightarrow> prop_quote list \<Rightarrow>
   feed_row list" where
  \<comment> \<open>\<open>rows\<close> of a run on the fetched quotes\<close>
  "feed_snapshot_rows ar d players_map games_map stats_map projection_map sport_arg now_iso
       fetched =
     List.map_filter
       (feed_row_for ar d players_map games_map stats_map projection_map now_iso)
       (feed_dedupe_props (filter_by_sport sport_arg players_map fetched))"

definition feed_build_snapshots ::
  "arith \<Rightarrow> db \<Rightarrow> (string \<Rightarrow> player option) \<Rightarrow> (string \<Rightarrow> game option) \<Rightarrow> (string \<Rightarrow> stat list) \<Rightarrow>
   (proj_key \<Rightarrow> snapshot option) \<Rightarrow> string option \<Rightarrow> string \<Rightarrow> prop_quote list \<Rightarrow>
   feed_row list \<Rightarrow> feed_row list" where
  \<comment> \<open>the table \<open>prop_feed_snapshots\<close> after a run: chunks of 100 rows are upserted with
      \<open>on_conflict="prop_id"\<close>\<close>
  "feed_build_snapshots ar d players_map games_map stats_map projection_map sport_arg now_iso
       fetched table =
     foldl (\<lambda>t chunk. upsert row_prop_id chunk t) table
       (chunks_of 100
          (feed_snapshot_rows ar d players_map games_map stats_map projection_map sport_arg
             now_iso fetched))"

section \<open>Reference formulas\<close>

text \<open>
  The formulas the specification gives in words, to compare the functions above with.
\<close>

definition record_weight :: "arith \<Rightarrow> nat \<Rightarrow> real \<Rightarrow> nat \<Rightarrow> real" where
  \<comment> \<open>the weight \<open>1 + (N - i) * recency_weight\<close> of the record at position \<open>i\<close> of \<open>N\<close>\<close>
  "record_weight ar n rw i = rnd ar (1 + rnd ar (real (n - i) * rw))"

definition weighted_terms ::
  "arith \<Rightarrow> nat \<Rightarrow> string \<Rightarrow> real \<Rightarrow> nat \<Rightarrow> stat list \<Rightarrow> (real \<times> real) list" where
  \<comment> \<open>the pairs \<open>(v, w)\<close> of the records that have a value, \<open>w\<close> the weight of the record's
      position; positions start at \<open>i\<close>\<close>
  "weighted_terms ar n pt rw i stats =
     List.map_filter
       (\<lambda>(k, st). map_option (\<lambda>v. (v, record_weight ar n rw k))
                      (get_prop_value_from_stat st pt))
       (List.enumerate i stats)"

definition running_sum :: "arith \<Rightarrow> real list \<Rightarrow> real" where
  \<comment> \<open>a sum accumulated from 0 with \<open>+=\<close>, front to back\<close>
  "running_sum ar xs = foldl (\<lambda>acc x. rnd ar (acc + x)) 0 xs"

definition claimed_defense_rating :: "stat list \<Rightarrow> string \<Rightarrow> real" where
  \<comment> \<open>the rating as the specification words it: the clamped ratio whenever at least 5
      qualifying games exist, else 1\<close>
  "claimed_defense_rating opponent_games pt =
     (let qualifying = defense_prop_values opponent_games pt
      in if length qualifying \<ge> 5
         then max (85 / 100)
                (min (115 / 100)
                   (sum_list qualifying / real (length qualifying)
                      / league_average exact_arith pt))
         else 1)"

definition effective_impact :: "injury \<Rightarrow> string \<Rightarrow> real" where
  \<comment> \<open>the impact percentage of a record whose lower-cased severity is \<open>sev\<close>: the stored
      percentage when there is one other than 0, else the severity default\<close>
  "effective_impact ir sev =
     (case impact_percentage ir of
        Val v \<Rightarrow> if v = 0 then severity_impact sev else v
      | _ \<Rightarrow> severity_impact sev)"

definition claimed_injury_multiplier :: "injury \<Rightarrow> real" where
  \<comment> \<open>the multiplier as the specification words it: the stored percentage whenever one
      is present, the severity default only when it is absent\<close>
  "claimed_injury_multiplier ir =
     (let sev_default =
            (case severity ir of Val s \<Rightarrow> severity_impact (py_lower s) | _ \<Rightarrow> 0);
          impact = (case impact_percentage ir of Val v \<Rightarrow> v | _ \<Rightarrow> sev_default)
      in max 0 (min 1 (1 - impact / 100)))"

definition projected_from ::
  "arith \<Rightarrow> real \<Rightarrow> string option \<Rightarrow> string option \<Rightarrow> factor_breakdown \<Rightarrow> real" where
  \<comment> \<open>the baseline multiplied in turn by the factors a result reports: defense and matchup
      when an opponent is known, home/away, injury, rest when rest days were found,
      pace when a game id is given\<close>
  "projected_from ar base opp gid f =
     (let x1 = (if truthy_str opp then rnd ar (base * defense_adjustment f) else base);
          x2 = (if truthy_str opp then rnd ar (x1 * matchup_adjustment f) else x1);
          x3 = rnd ar (x2 * home_away_adjustment f);
          x4 = rnd ar (x3 * injury_adjustment f);
          x5 = (case rest_days f of None \<Rightarrow> x4 | Some rd \<Rightarrow> rnd ar (x4 * rest_adjustment f));
          x6 = (if truthy_str gid then rnd ar (x5 * pace_adjustment f) else x5)
      in x6)"

section \<open>Concrete inputs\<close>

definition stat_with_points :: "real \<Rightarrow> stat" where
  "stat_with_points v =
     \<lparr>points = Some v, rebounds = None, assists = None, three_pointers_made = None,
      steals = None, blocks = None, turnovers = None, headshots = None,
      first_kills = None, passing_yards = None, rushing_yards = None, receptions = None,
      receiving_yards = None, passing_touchdowns = None, rushing_touchdowns = None,
      opponent = None\<rparr>"

definition points_quote :: "string \<Rightarrow> string \<Rightarrow> real \<Rightarrow> string \<Rightarrow> prop_quote" where
  \<comment> \<open>a points quote of player p1 in game g1 at -110 on both sides\<close>
  "points_quote qid bk lin t =
     \<lparr>quote_id = Some qid, player_id = Some ''p1'', game_id = Some ''g1'',
      prop_type = Some ''points'', line = Some lin, over_price = Some (- 110),
      under_price = Some (- 110), book = Some bk, created_at = Some t\<rparr>"

definition empty_db :: db where
  \<comment> \<open>a store in which every query returns no row\<close>
  "empty_db =
     \<lparr>q_bovada_lines = (\<lambda>_ _ _. Some []),
      q_recent_stats = (\<lambda>_ _. Some []),
      q_matchup_stats = (\<lambda>_ _. Some []),
      q_home_away_stats = (\<lambda>_ _. Some []),
      q_active_injuries = (\<lambda>_. Some []),
      q_opponent_games = (\<lambda>_. Some []),
      q_game_day = (\<lambda>_. None),
      q_last_game_days = (\<lambda>_ _. Some []),
      q_dfs_lines = (\<lambda>_ _ _ _. Some [])\<rparr>"

definition injury_record :: "string field \<Rightarrow> real field \<Rightarrow> injury" where
  "injury_record sev pct =
     \<lparr>severity = sev, impact_percentage = pct, injury_type = None, injury_notes = None\<rparr>"

definition player_one :: player where
  "player_one = \<lparr>player_name = Some ''Player One'', team = Some ''BOS'',
                  position = Some ''G'', sport = Some ''NBA''\<rparr>"

definition game_one :: game where
  "game_one = \<lparr>home_team = Some ''BOS'', away_team = Some ''NYK''\<rparr>"

definition players_one :: "string \<Rightarrow> player option" where
  "players_one pid = (if pid = ''p1'' then Some player_one else None)"

definition games_one :: "string \<Rightarrow> game option" where
  "games_one gid = (if gid = ''g1'' then Some game_one else None)"


definition db_opponent_games :: "stat list \<Rightarrow> db" where
  "db_opponent_games gs = empty_db\<lparr>q_opponent_games := (\<lambda>_. Some gs)\<rparr>"

definition db_injuries :: "injury list \<Rightarrow> db" where
  "db_injuries irs = empty_db\<lparr>q_active_injuries := (\<lambda>_. Some irs)\<rparr>"

definition db_recent_stats :: "stat list \<Rightarrow> db" where
  "db_recent_stats sts = empty_db\<lparr>q_recent_stats := (\<lambda>_ n. Some (take n sts))\<rparr>"

definition db_bovada :: "real \<Rightarrow> db" where
  "db_bovada l = empty_db\<lparr>q_bovada_lines := (\<lambda>_ _ _. Some [Some l])\<rparr>"

definition no_stats :: "string \<Rightarrow> stat list" where
  \<comment> \<open>an empty \<open>stats_map\<close>\<close>
  "no_stats pid = []"

definition no_projections :: "proj_key \<Rightarrow> snapshot option" where
  \<comment> \<open>an empty \<open>projection_map\<close>\<close>
  "no_projections k = None"

section \<open>Properties of the edge and hit-rate calculator\<close>

lemma exact_simps:
  "rnd exact_arith x = x"
  "py_sum exact_arith = sum_list"
  "pow_half exact_arith = sqrt"
  by (simp_all add: exact_arith_def)

lemmas edge_eval_defs =
  calculate_edge_and_hitrate_def points_quote_def stat_with_points_def prop_values_of_def
  get_prop_value_from_stat_def hits_over_def hits_under_def
  renormalized_probs_def smoothed_over_prob_def smoothed_under_prob_def smoothing_def
  price_ev_def ev_def py_round_def round_half_even_def exact_simps Let_def

lemma smoothed_exact:
  "smoothed_over_prob exact_arith l vs =
     (real (hits_over l vs) + 1 / 10) / (real (length vs) + 2 / 10)"
  "smoothed_under_prob exact_arith l vs =
     (real (hits_under l vs) + 1 / 10) / (real (length vs) + 2 / 10)"
proof -
  have two: "(1 / 10 :: real) * 2 = 2 / 10" by simp
  show "smoothed_over_prob exact_arith l vs =
     (real (hits_over l vs) + 1 / 10) / (real (length vs) + 2 / 10)"
    unfolding smoothed_over_prob_def smoothing_def exact_simps two ..
  show "smoothed_under_prob exact_arith l vs =
     (real (hits_under l vs) + 1 / 10) / (real (length vs) + 2 / 10)"
    unfolding smoothed_under_prob_def smoothing_def exact_simps two ..
qed

lemma smoothed_over_pos: "0 < smoothed_over_prob exact_arith l vs"
  by (simp add: smoothed_exact add_pos_nonneg)

lemma smoothed_under_pos: "0 < smoothed_under_prob exact_arith l vs"
  by (simp add: smoothed_exact add_pos_nonneg)

lemma renormalized_probs_eq:
  "renormalized_probs exact_arith l vs =
     (smoothed_over_prob exact_arith l vs
        / (smoothed_over_prob exact_arith l vs + smoothed_under_prob exact_arith l vs),
      smoothed_under_prob exact_arith l vs
        / (smoothed_over_prob exact_arith l vs + smoothed_under_prob exact_arith l vs))"
  using smoothed_over_pos[of l vs] smoothed_under_pos[of l vs]
  by (simp add: renormalized_probs_def Let_def add_pos_pos exact_simps)

lemma renormalized_sum:
  "fst (renormalized_probs exact_arith l vs) + snd (renormalized_probs exact_arith l vs) = 1"
proof -
  let ?t = "smoothed_over_prob exact_arith l vs + smoothed_under_prob exact_arith l vs"
  have "?t \<noteq> 0"
    using smoothed_over_pos[of l vs] smoothed_under_pos[of l vs] by simp
  then show ?thesis
    by (simp add: renormalized_probs_eq add_divide_distrib[symmetric])
qed

lemma ratio_cancel:
  fixes a c d :: real
  shows "d \<noteq> 0 \<Longrightarrow> (a / d) / (c / d) = a / c"
  by simp

lemma renormalized_closed_form:
  "renormalized_probs exact_arith l vs =
     ((real (hits_over l vs) + 1 / 10)
        / (real (hits_over l vs) + real (hits_under l vs) + 2 / 10),
      (real (hits_under l vs) + 1 / 10)
        / (real (hits_over l vs) + real (hits_under l vs) + 2 / 10))"
proof -
  define a where "a = real (hits_over l vs) + 1 / 10"
  define b where "b = real (hits_under l vs) + 1 / 10"
  define d where "d = real (length vs) + 2 / 10"
  have d: "d \<noteq> 0"
    unfolding d_def by (metis add_nonneg_pos less_numeral_extra(3) of_nat_0_le_iff
        zero_less_divide_iff zero_less_numeral)
  have so: "smoothed_over_prob exact_arith l vs = a / d"
    and su: "smoothed_under_prob exact_arith l vs = b / d"
    unfolding a_def b_def d_def by (rule smoothed_exact)+
  have s: "a / d + b / d = (a + b) / d"
    by (rule add_divide_distrib[symmetric])
  have ab: "a + b = real (hits_over l vs) + real (hits_under l vs) + 2 / 10"
    unfolding a_def b_def by simp
  have "renormalized_probs exact_arith l vs = (a / (a + b), b / (a + b))"
    unfolding renormalized_probs_eq so su s ratio_cancel[OF d] ..
  then show ?thesis
    unfolding ab unfolding a_def b_def .
qed

lemma values_nonempty_stats:
  "prop_values_of stats pt \<noteq> [] \<Longrightarrow> stats \<noteq> []"
  by (auto simp: prop_values_of_def split: option.splits)

lemma ev_defined: "a \<noteq> 0 \<Longrightarrow> \<exists>x. ev ar p a = Some x"
  by (simp add: ev_def)

lemma calculator_unfold:
  assumes "line prop = Some l" and "vs = prop_values_of stats (prop_type prop)" and "vs \<noteq> []"
  shows "calculate_edge_and_hitrate ar prop stats =
    (let over_prob = fst (renormalized_probs ar l vs);
         under_prob = snd (renormalized_probs ar l vs)
     in (case price_ev ar over_prob (over_price prop) of
           Some oe \<Rightarrow>
             (case price_ev ar under_prob (under_price prop) of
                None \<Rightarrow> Some \<lparr>edge = oe, side = ''over'', prob = over_prob,
                               odds = over_price prop\<rparr>
              | Some ue \<Rightarrow>
                  if oe \<ge> ue
                  then Some \<lparr>edge = oe, side = ''over'', prob = over_prob,
                             odds = over_price prop\<rparr>
                  else Some \<lparr>edge = ue, side = ''under'', prob = under_prob,
                             odds = under_price prop\<rparr>)
         | None \<Rightarrow>
             (case price_ev ar under_prob (under_price prop) of
                None \<Rightarrow> None
              | Some ue \<Rightarrow> Some \<lparr>edge = ue, side = ''under'', prob = under_prob,
                                  odds = under_price prop\<rparr>)),
        Some \<lparr>total_games = length vs,
              over_pct = py_round ar
                 (rnd ar (rnd ar (real (hits_over l vs) / real (length vs)) * 100)) 1,
              under_pct = py_round ar
                 (rnd ar (rnd ar (real (hits_under l vs) / real (length vs)) * 100)) 1,
              pushes = int (length vs) - int (hits_over l vs) - int (hits_under l vs),
              over_count = hits_over l vs,
              under_count = hits_under l vs\<rparr>)"
  using assms values_nonempty_stats[of stats "prop_type prop"]
  by (simp add: calculate_edge_and_hitrate_def Let_def case_prod_beta)

lemma edge_reported:
  assumes "line prop = Some l" and "vs = prop_values_of stats (prop_type prop)" and "vs \<noteq> []"
    and "(\<exists>a. over_price prop = Some a \<and> a \<noteq> 0) \<or> (\<exists>b. under_price prop = Some b \<and> b \<noteq> 0)"
  shows "\<exists>e. fst (calculate_edge_and_hitrate ar prop stats) = Some e"
proof -
  from assms(4) have
    "price_ev ar (fst (renormalized_probs ar l vs)) (over_price prop) \<noteq> None \<or>
     price_ev ar (snd (renormalized_probs ar l vs)) (under_price prop) \<noteq> None"
    using ev_defined by (fastforce simp: price_ev_def)
  then show ?thesis
    unfolding calculator_unfold[OF assms(1-3)]
    by (auto simp: Let_def split: option.splits)
qed

lemma edge_sides:
  assumes "line prop = Some l" and "vs = prop_values_of stats (prop_type prop)" and "vs \<noteq> []"
    and "fst (calculate_edge_and_hitrate ar prop stats) = Some e"
  shows "(side e = ''over'' \<and> prob e = fst (renormalized_probs ar l vs) \<and>
            odds e = over_price prop \<and>
            price_ev ar (fst (renormalized_probs ar l vs)) (over_price prop) = Some (edge e)) \<or>
         (side e = ''under'' \<and> prob e = snd (renormalized_probs ar l vs) \<and>
            odds e = under_price prop \<and>
            price_ev ar (snd (renormalized_probs ar l vs)) (under_price prop) = Some (edge e))"
  using assms(4) unfolding calculator_unfold[OF assms(1-3)]
  by (auto simp: Let_def split: option.splits if_splits)

lemma hit_rate_reported:
  assumes "line prop = Some l" and "vs = prop_values_of stats (prop_type prop)" and "vs \<noteq> []"
  shows "\<exists>hr. snd (calculate_edge_and_hitrate ar prop stats) = Some hr \<and>
           total_games hr = length vs \<and> over_count hr = hits_over l vs \<and>
           under_count hr = hits_under l vs \<and>
           pushes hr = int (length vs) - int (hits_over l vs) - int (hits_under l vs)"
  unfolding calculator_unfold[OF assms(1-3)] by (simp add: Let_def)

text \<open>
  C1.  In exact (rational) arithmetic, for a defined line \<open>l\<close> and a non-empty list \<open>vs\<close>
  of values extracted from the history: the smoothed probabilities are
  \<open>(hits_over + 0.1) / (N + 0.2)\<close> and \<open>(hits_under + 0.1) / (N + 0.2)\<close>; the
  re-normalization divides each by their sum, which makes the pair
  \<open>(hits_over + 0.1) / (hits_over + hits_under + 0.2)\<close> and
  \<open>(hits_under + 0.1) / (hits_over + hits_under + 0.2)\<close>, so that pushes carry no mass
  and the pair sums to exactly 1.  The calculator returns the hit-rate result with these
  counts; it reports an edge as soon as one price is present, and the probability and
  expected value of a reported edge are those of the renormalized probability of its
  side.
\<close>

theorem edge_probabilities_sum_to_one:
  assumes "line prop = Some l"
    and "vs = prop_values_of stats (prop_type prop)"
    and "vs \<noteq> []"
  shows "smoothed_over_prob exact_arith l vs =
           (real (hits_over l vs) + 0.1) / (real (length vs) + 0.2) \<and>
         smoothed_under_prob exact_arith l vs =
           (real (hits_under l vs) + 0.1) / (real (length vs) + 0.2) \<and>
         renormalized_probs exact_arith l vs =
           (smoothed_over_prob exact_arith l vs
              / (smoothed_over_prob exact_arith l vs + smoothed_under_prob exact_arith l vs),
            smoothed_under_prob exact_arith l vs
              / (smoothed_over_prob exact_arith l vs + smoothed_under_prob exact_arith l vs)) \<and>
         renormalized_probs exact_arith l vs =
           ((real (hits_over l vs) + 0.1)
              / (real (hits_over l vs) + real (hits_under l vs) + 0.2),
            (real (hits_under l vs) + 0.1)
              / (real (hits_over l vs) + real (hits_under l vs) + 0.2)) \<and>
         fst (renormalized_probs exact_arith l vs)
           + snd (renormalized_probs exact_arith l vs) = 1 \<and>
         (\<exists>hr. snd (calculate_edge_and_hitrate exact_arith prop stats) = Some hr \<and>
            total_games hr = length vs \<and> over_count hr = hits_over l vs \<and>
            under_count hr = hits_under l vs \<and>
            pushes hr = int (length vs) - int (hits_over l vs) - int (hits_under l vs)) \<and>
         ((\<exists>a. over_price prop = Some a \<and> a \<noteq> 0) \<or>
          (\<exists>b. under_price prop = Some b \<and> b \<noteq> 0) \<longrightarrow>
            (\<exists>e. fst (calculate_edge_and_hitrate exact_arith prop stats) = Some e)) \<and>
         (\<forall>e. fst (calculate_edge_and_hitrate exact_arith prop stats) = Some e \<longrightarrow>
            (side e = ''over'' \<and> prob e = fst (renormalized_probs exact_arith l vs) \<and>
               odds e = over_price prop \<and>
               price_ev exact_arith (fst (renormalized_probs exact_arith l vs))
                 (over_price prop) = Some (edge e)) \<or>
            (side e = ''under'' \<and> prob e = snd (renormalized_probs exact_arith l vs) \<and>
               odds e = under_price prop \<and>
               price_ev exact_arith (snd (renormalized_probs exact_arith l vs))
                 (under_price prop) = Some (edge e)))"
  (is "?so \<and> ?su \<and> ?re \<and> ?cf \<and> ?sum \<and> ?hr \<and> ?rep \<and> ?sides")
proof -
  have so: ?so and su: ?su
    by (simp_all add: smoothed_exact)
  have re: ?re
    by (rule renormalized_probs_eq)
  have cf: ?cf
    by (simp add: renormalized_closed_form)
  have sum: ?sum
    by (rule renormalized_sum)
  have hr: ?hr
    by (rule hit_rate_reported[OF assms])
  have rep: ?rep
    using edge_reported[OF assms] by blast
  have sides: ?sides
    using edge_sides[OF assms] by blast
  from so su re cf sum hr rep sides show ?thesis
    by (intro conjI)
qed

theorem edge_probabilities_sum_to_one_witness:
  "line (points_quote ''q1'' ''Bovada'' 10 ''2024-01-01'') = Some 10 \<and>
   prop_values_of (map stat_with_points [12, 11, 10, 8]) (Some ''points'') = [12, 11, 10, 8] \<and>
   hits_over 10 [12, 11, 10, 8] = 2 \<and> hits_under 10 [12, 11, 10, 8] = 1 \<and>
   smoothed_over_prob exact_arith 10 [12, 11, 10, 8] = 21 / 42 \<and>
   smoothed_under_prob exact_arith 10 [12, 11, 10, 8] = 11 / 42 \<and>
   renormalized_probs exact_arith 10 [12, 11, 10, 8] = (21 / 32, 11 / 32) \<and>
   fst (renormalized_probs exact_arith 10 [12, 11, 10, 8]) +
     snd (renormalized_probs exact_arith 10 [12, 11, 10, 8]) = 1 \<and>
   (\<exists>e. fst (calculate_edge_and_hitrate exact_arith
               (points_quote ''q1'' ''Bovada'' 10 ''2024-01-01'')
               (map stat_with_points [12, 11, 10, 8])) = Some e)"
proof -
  let ?q = "points_quote ''q1'' ''Bovada'' 10 ''2024-01-01''"
  let ?stats = "map stat_with_points [12, 11, 10, 8]"
  have h1: "line ?q = Some 10"
    by (simp add: points_quote_def)
  have h2: "[12, 11, 10, 8] = prop_values_of ?stats (prop_type ?q)"
    by (simp add: edge_eval_defs)
  have h3: "[12, 11, 10, (8::real)] \<noteq> []"
    by simp
  have pt: "prop_type ?q = Some ''points''"
    by (simp add: points_quote_def)
  have ho: "hits_over 10 [12, 11, 10, 8] = 2" and hu: "hits_under 10 [12, 11, 10, 8] = 1"
    by (simp_all add: hits_over_def hits_under_def)
  have pr: "(\<exists>a. over_price ?q = Some a \<and> a \<noteq> 0) \<or> (\<exists>b. under_price ?q = Some b \<and> b \<noteq> 0)"
    by (simp add: points_quote_def)
  note t = edge_probabilities_sum_to_one[OF h1 h2 h3]
  have so: "smoothed_over_prob exact_arith 10 [12, 11, 10, 8] = 21 / 42"
    by (subst t[THEN conjunct1]) (simp add: ho)
  have su: "smoothed_under_prob exact_arith 10 [12, 11, 10, 8] = 11 / 42"
    by (subst t[THEN conjunct2, THEN conjunct1]) (simp add: hu)
  have cf: "renormalized_probs exact_arith 10 [12, 11, 10, 8] = (21 / 32, 11 / 32)"
    by (subst t[THEN conjunct2, THEN conjunct2, THEN conjunct2, THEN conjunct1])
       (simp add: ho hu)
  from t have sm: "fst (renormalized_probs exact_arith 10 [12, 11, 10, 8]) +
     snd (renormalized_probs exact_arith 10 [12, 11, 10, 8]) = 1"
    by blast
  from t pr have ex: "\<exists>e. fst (calculate_edge_and_hitrate exact_arith ?q ?stats) = Some e"
    by blast
  from h1 h2[symmetric] pt ho hu so su cf sm ex show ?thesis
    by simp
qed

lemma float_rounding_exact: "float_rounding exact_arith"
  by (simp add: float_rounding_def exact_simps)

lemma rnd_mono: "float_rounding ar \<Longrightarrow> x \<le> y \<Longrightarrow> rnd ar x \<le> rnd ar y"
  by (simp add: float_rounding_def)

lemma rnd_nonneg: "float_rounding ar \<Longrightarrow> 0 \<le> x \<Longrightarrow> 0 \<le> rnd ar x"
  using rnd_mono[of ar 0 x] by (simp add: float_rounding_def)

lemma smoothed_order:
  assumes "float_rounding ar" and "hits_under l vs \<le> hits_over l vs"
  shows "smoothed_under_prob ar l vs \<le> smoothed_over_prob ar l vs"
proof -
  have s: "0 \<le> smoothing ar"
    unfolding smoothing_def by (rule rnd_nonneg[OF assms(1)]) simp
  then have "0 \<le> rnd ar (smoothing ar * 2)"
    by (intro rnd_nonneg[OF assms(1)]) simp
  then have den: "0 \<le> rnd ar (real (length vs) + rnd ar (smoothing ar * 2))"
    by (intro rnd_nonneg[OF assms(1)]) simp
  have "real (hits_under l vs) + smoothing ar \<le> real (hits_over l vs) + smoothing ar"
    using assms(2) by simp
  then have "rnd ar (real (hits_under l vs) + smoothing ar)
               \<le> rnd ar (real (hits_over l vs) + smoothing ar)"
    by (rule rnd_mono[OF assms(1)])
  then have "rnd ar (real (hits_under l vs) + smoothing ar)
               / rnd ar (real (length vs) + rnd ar (smoothing ar * 2))
             \<le> rnd ar (real (hits_over l vs) + smoothing ar)
               / rnd ar (real (length vs) + rnd ar (smoothing ar * 2))"
    using den by (rule divide_right_mono)
  then show ?thesis
    unfolding smoothed_over_prob_def smoothed_under_prob_def by (rule rnd_mono[OF assms(1)])
qed

lemma renormalized_order:
  assumes "float_rounding ar" and "hits_under l vs \<le> hits_over l vs"
  shows "snd (renormalized_probs ar l vs) \<le> fst (renormalized_probs ar l vs)"
proof -
  let ?o = "smoothed_over_prob ar l vs" and ?u = "smoothed_under_prob ar l vs"
  have ou: "?u \<le> ?o" by (rule smoothed_order[OF assms])
  show ?thesis
  proof (cases "rnd ar (?o + ?u) > 0")
    case True
    then have "?u / rnd ar (?o + ?u) \<le> ?o / rnd ar (?o + ?u)"
      using ou by (simp add: divide_right_mono)
    then have "rnd ar (?u / rnd ar (?o + ?u)) \<le> rnd ar (?o / rnd ar (?o + ?u))"
      by (rule rnd_mono[OF assms(1)])
    with True show ?thesis
      by (simp add: renormalized_probs_def Let_def)
  next
    case False
    with ou show ?thesis
      by (simp add: renormalized_probs_def Let_def)
  qed
qed

lemma ev_mono:
  assumes "float_rounding ar" and "a \<noteq> 0" and "p \<le> p'"
  shows "\<exists>x y. ev ar p a = Some x \<and> ev ar p' a = Some y \<and> x \<le> y"
proof -
  define pay where "pay = (if a > 0 then rnd ar (of_int a / 100) else rnd ar (100 / of_int (- a)))"
  have pay: "0 \<le> pay"
    unfolding pay_def using assms(2) by (auto intro!: rnd_nonneg[OF assms(1)])
  have e: "ev ar q a = Some (rnd ar (rnd ar (q * pay) - rnd ar (1 - q)))" for q
    using assms(2) by (simp add: ev_def pay_def)
  have "p * pay \<le> p' * pay"
    using assms(3) pay by (rule mult_right_mono)
  then have m1: "rnd ar (p * pay) \<le> rnd ar (p' * pay)"
    by (rule rnd_mono[OF assms(1)])
  have "1 - p' \<le> 1 - p"
    using assms(3) by simp
  then have m2: "rnd ar (1 - p') \<le> rnd ar (1 - p)"
    by (rule rnd_mono[OF assms(1)])
  from m1 m2 have "rnd ar (p * pay) - rnd ar (1 - p) \<le> rnd ar (p' * pay) - rnd ar (1 - p')"
    by simp
  then have "rnd ar (rnd ar (p * pay) - rnd ar (1 - p))
               \<le> rnd ar (rnd ar (p' * pay) - rnd ar (1 - p'))"
    by (rule rnd_mono[OF assms(1)])
  with e show ?thesis by simp
qed

lemma over_side_reported:
  assumes "float_rounding ar"
    and "line prop = Some l" and "vs = prop_values_of stats (prop_type prop)" and "vs \<noteq> []"
    and "over_price prop = Some a" and "under_price prop = Some a" and "a \<noteq> 0"
    and "hits_under l vs \<le> hits_over l vs"
  shows "\<exists>e. fst (calculate_edge_and_hitrate ar prop stats) = Some e \<and> side e = ''over'' \<and>
              prob e = fst (renormalized_probs ar l vs) \<and> odds e = Some a"
proof -
  from ev_mono[OF assms(1,7) renormalized_order[OF assms(1,8)]]
  obtain x y where "ev ar (snd (renormalized_probs ar l vs)) a = Some x"
    and "ev ar (fst (renormalized_probs ar l vs)) a = Some y" and "x \<le> y"
    by blast
  then show ?thesis
    unfolding calculator_unfold[OF assms(2-4)]
    using assms(5-7) by (simp add: Let_def price_ev_def)
qed

text \<open>
  C2.  The example scenario: values 30, 25, 28, 22, 31 (most recent first), line 27.5 and
  -110 on both sides give 3 hits over, 2 under, no push, renormalized probabilities
  3.1/5.2 and 2.1/5.2, and the over side as the edge with expected value
  \<open>(3.1/5.2) * (100/110) - (2.1/5.2)\<close>.  These are the values of exact arithmetic; in every
  arithmetic whose rounding is monotone and keeps 0 and 1 the counts are the same and the
  over side is the one reported.
\<close>

theorem example_scenario_edge:
  "calculate_edge_and_hitrate exact_arith
       (points_quote ''q1'' ''Bovada'' (55 / 2) ''2024-01-01'')
       (map stat_with_points [30, 25, 28, 22, 31]) =
     (Some \<lparr>edge = (3.1 / 5.2) * (100 / 110) - (2.1 / 5.2), side = ''over'',
            prob = 3.1 / 5.2, odds = Some (- 110)\<rparr>,
      Some \<lparr>total_games = 5, over_pct = 60, under_pct = 40, pushes = 0,
            over_count = 3, under_count = 2\<rparr>) \<and>
   renormalized_probs exact_arith (55 / 2) [30, 25, 28, 22, 31] = (3.1 / 5.2, 2.1 / 5.2) \<and>
   (\<forall>ar. float_rounding ar \<longrightarrow>
      (\<exists>e hr. calculate_edge_and_hitrate ar
                 (points_quote ''q1'' ''Bovada'' (55 / 2) ''2024-01-01'')
                 (map stat_with_points [30, 25, 28, 22, 31]) = (Some e, Some hr) \<and>
               side e = ''over'' \<and> odds e = Some (- 110) \<and>
               total_games hr = 5 \<and> over_count hr = 3 \<and> under_count hr = 2 \<and>
               pushes hr = 0))"
proof -
  let ?q = "points_quote ''q1'' ''Bovada'' (55 / 2) ''2024-01-01''"
  let ?stats = "map stat_with_points [30, 25, 28, 22, 31]"
  have ex: "calculate_edge_and_hitrate exact_arith ?q ?stats =
     (Some \<lparr>edge = (3.1 / 5.2) * (100 / 110) - (2.1 / 5.2), side = ''over'',
            prob = 3.1 / 5.2, odds = Some (- 110)\<rparr>,
      Some \<lparr>total_games = 5, over_pct = 60, under_pct = 40, pushes = 0,
            over_count = 3, under_count = 2\<rparr>) \<and>
     renormalized_probs exact_arith (55 / 2) [30, 25, 28, 22, 31] = (3.1 / 5.2, 2.1 / 5.2)"
    by (simp add: edge_eval_defs)
  have h1: "line ?q = Some (55 / 2)"
    by (simp add: points_quote_def)
  have h2: "[30, 25, 28, 22, 31] = prop_values_of ?stats (prop_type ?q)"
    by (simp add: points_quote_def stat_with_points_def prop_values_of_def
        get_prop_value_from_stat_def)
  have h3: "[30, 25, 28, 22, (31::real)] \<noteq> []"
    by simp
  have h4: "over_price ?q = Some (- 110)" and h5: "under_price ?q = Some (- 110)"
    and h6: "(- 110 :: int) \<noteq> 0"
    by (simp_all add: points_quote_def)
  have ho: "hits_over (55 / 2) [30, 25, 28, 22, 31] = 3"
    and hu: "hits_under (55 / 2) [30, 25, 28, 22, 31] = 2"
    by (simp_all add: hits_over_def hits_under_def)
  have h7: "hits_under (55 / 2) [30, 25, 28, 22, 31] \<le> hits_over (55 / 2) [30, 25, 28, 22, 31]"
    by (simp add: ho hu)
  have gen: "\<exists>e hr. calculate_edge_and_hitrate ar ?q ?stats = (Some e, Some hr) \<and>
               side e = ''over'' \<and> odds e = Some (- 110) \<and>
               total_games hr = 5 \<and> over_count hr = 3 \<and> under_count hr = 2 \<and>
               pushes hr = 0"
    if fr: "float_rounding ar" for ar
  proof -
    from over_side_reported[OF fr h1 h2 h3 h4 h5 h6 h7] obtain e where
      e: "fst (calculate_edge_and_hitrate ar ?q ?stats) = Some e" "side e = ''over''"
         "odds e = Some (- 110)"
      by blast
    from hit_rate_reported[OF h1 h2 h3, of ar] obtain hr where
      hr: "snd (calculate_edge_and_hitrate ar ?q ?stats) = Some hr"
          "total_games hr = 5" "over_count hr = 3" "under_count hr = 2" "pushes hr = 0"
      by (auto simp: ho hu)
    from e(1) hr(1) have "calculate_edge_and_hitrate ar ?q ?stats = (Some e, Some hr)"
      by (simp add: prod_eq_iff)
    with e hr show ?thesis by blast
  qed
  from ex gen show ?thesis by blast
qed

theorem example_scenario_edge_witness:
  "float_rounding exact_arith \<and>
   (\<exists>e hr. calculate_edge_and_hitrate exact_arith
              (points_quote ''q1'' ''Bovada'' (55 / 2) ''2024-01-01'')
              (map stat_with_points [30, 25, 28, 22, 31]) = (Some e, Some hr) \<and>
            side e = ''over'' \<and> total_games hr = 5 \<and> over_count hr = 3 \<and>
            under_count hr = 2 \<and> pushes hr = 0)"
  using example_scenario_edge float_rounding_exact by blast

lemma symmetric_tie:
  assumes "hits_over l vs = hits_under l vs"
  shows "ev ar (fst (renormalized_probs ar l vs)) a = ev ar (snd (renormalized_probs ar l vs)) a"
proof -
  from assms have "smoothed_over_prob ar l vs = smoothed_under_prob ar l vs"
    by (simp add: smoothed_over_prob_def smoothed_under_prob_def)
  then have "fst (renormalized_probs ar l vs) = snd (renormalized_probs ar l vs)"
    by (simp add: renormalized_probs_def Let_def)
  then show ?thesis by simp
qed

text \<open>
  C10.  In whatever arithmetic \<open>ar\<close> the expected values are computed (that of the
  program's floats included), when both prices are present, so that both expected
  values are computed, and the two computed values are equal, the reported edge is the
  over side with that value.  Such ties occur in every arithmetic: with as many hits
  over as under and the same price on both sides the two values are computed by the same
  operations on the same numbers (lemma \<open>symmetric_tie\<close>).
\<close>

theorem tie_reports_over:
  assumes "line prop = Some l"
    and "vs = prop_values_of stats (prop_type prop)"
    and "vs \<noteq> []"
    and "over_price prop = Some a" and "a \<noteq> 0"
    and "under_price prop = Some b" and "b \<noteq> 0"
    and "ev ar (fst (renormalized_probs ar l vs)) a = ev ar (snd (renormalized_probs ar l vs)) b"
  shows "\<exists>x. ev ar (fst (renormalized_probs ar l vs)) a = Some x \<and>
         ev ar (snd (renormalized_probs ar l vs)) b = Some x \<and>
         fst (calculate_edge_and_hitrate ar prop stats) =
           Some \<lparr>edge = x, side = ''over'', prob = fst (renormalized_probs ar l vs),
                 odds = Some a\<rparr>"
proof -
  from \<open>a \<noteq> 0\<close> obtain x where x: "ev ar (fst (renormalized_probs ar l vs)) a = Some x"
    using ev_defined by blast
  with assms(8) have y: "ev ar (snd (renormalized_probs ar l vs)) b = Some x" by simp
  have "fst (calculate_edge_and_hitrate ar prop stats) =
           Some \<lparr>edge = x, side = ''over'', prob = fst (renormalized_probs ar l vs),
                 odds = Some a\<rparr>"
    unfolding calculator_unfold[OF assms(1-3)]
    using assms(4-7) x y by (simp add: Let_def price_ev_def)
  with x y show ?thesis by blast
qed

theorem tie_reports_over_witness:
  "ev exact_arith (fst (renormalized_probs exact_arith 25 [30, 20])) (- 110) =
     Some (- 1 / 22) \<and>
   ev exact_arith (snd (renormalized_probs exact_arith 25 [30, 20])) (- 110) =
     Some (- 1 / 22) \<and>
   fst (calculate_edge_and_hitrate exact_arith
          (points_quote ''q1'' ''Bovada'' 25 ''2024-01-01'')
          (map stat_with_points [30, 20])) =
     Some \<lparr>edge = - 1 / 22, side = ''over'', prob = 1 / 2, odds = Some (- 110)\<rparr>"
proof -
  let ?q = "points_quote ''q1'' ''Bovada'' 25 ''2024-01-01''"
  let ?stats = "map stat_with_points [30, 20]"
  have h1: "line ?q = Some 25"
    by (simp add: points_quote_def)
  have h2: "[30, 20] = prop_values_of ?stats (prop_type ?q)"
    by (simp add: edge_eval_defs)
  have h3: "[30, (20::real)] \<noteq> []"
    by simp
  have h4: "over_price ?q = Some (- 110)" and h5: "(- 110 :: int) \<noteq> 0"
    and h6: "under_price ?q = Some (- 110)"
    by (simp_all add: points_quote_def)
  have p: "renormalized_probs exact_arith 25 [30, 20] = (1 / 2, 1 / 2)"
    by (simp add: edge_eval_defs)
  have eo: "ev exact_arith (fst (renormalized_probs exact_arith 25 [30, 20])) (- 110) =
              Some (- 1 / 22)"
    by (simp add: p ev_def exact_simps)
  have eu: "ev exact_arith (snd (renormalized_probs exact_arith 25 [30, 20])) (- 110) =
              Some (- 1 / 22)"
    by (simp add: p ev_def exact_simps)
  have h8: "ev exact_arith (fst (renormalized_probs exact_arith 25 [30, 20])) (- 110) =
            ev exact_arith (snd (renormalized_probs exact_arith 25 [30, 20])) (- 110)"
    by (simp only: eo eu)
  from tie_reports_over[OF h1 h2 h3 h4 h5 h6 h5 h8] obtain x where
    x1: "ev exact_arith (fst (renormalized_probs exact_arith 25 [30, 20])) (- 110) = Some x"
    and x2: "fst (calculate_edge_and_hitrate exact_arith ?q ?stats) =
           Some \<lparr>edge = x, side = ''over'',
                 prob = fst (renormalized_probs exact_arith 25 [30, 20]),
                 odds = Some (- 110)\<rparr>"
    by blast
  from x1 eo have "x = - 1 / 22" by simp
  with x2 have "fst (calculate_edge_and_hitrate exact_arith ?q ?stats) =
           Some \<lparr>edge = - 1 / 22, side = ''over'', prob = 1 / 2, odds = Some (- 110)\<rparr>"
    by (simp add: p)
  with eo eu show ?thesis by blast
qed


section \<open>Properties of the two deduplication steps\<close>

lemma map_of_dict_set: "map_of (dict_set k v d) = (map_of d)(k \<mapsto> v)"
  by (induction d) (auto simp: fun_eq_iff)

lemma keys_dict_set:
  "map fst (dict_set k v d) =
     (if k \<in> set (map fst d) then map fst d else map fst d @ [k])"
  by (induction d) (force split: if_splits)+

lemma distinct_dict_set:
  "distinct (map fst d) \<Longrightarrow> distinct (map fst (dict_set k v d))"
  by (simp add: keys_dict_set)

lemma feed_loop_distinct:
  "distinct (map fst latest) \<Longrightarrow> distinct (map fst (feed_dedupe_loop latest ps))"
  by (induction ps arbitrary: latest)
     (auto simp: distinct_dict_set split: option.splits)

lemma feed_loop_step:
  assumes "feed_key_of p = Some key"
  shows "feed_dedupe_loop latest (p # ps) =
           (if dict_get latest key = None \<or>
               str_or_empty (created_at p) >
                 str_or_empty (created_at (the (dict_get latest key)))
            then feed_dedupe_loop (dict_set key p latest) ps
            else feed_dedupe_loop latest ps)"
  using assms by (auto split: option.splits)

lemma feed_loop_source:
  "map_of (feed_dedupe_loop latest ps) k = Some q \<Longrightarrow>
     map_of latest k = Some q \<or> (q \<in> set ps \<and> feed_key_of q = Some k)"
proof (induction ps arbitrary: latest)
  case Nil
  then show ?case by simp
next
  case (Cons p ps)
  show ?case
  proof (cases "feed_key_of p")
    case None
    with Cons show ?thesis by auto
  next
    case (Some key)
    show ?thesis
    proof (cases "dict_get latest key = None \<or>
        str_or_empty (created_at p) > str_or_empty (created_at (the (dict_get latest key)))")
      case True
      with Cons.prems have "map_of (feed_dedupe_loop (dict_set key p latest) ps) k = Some q"
        by (simp only: feed_loop_step[OF Some] if_True)
      from Cons.IH[OF this] show ?thesis
        using Some by (auto simp: map_of_dict_set split: if_splits)
    next
      case False
      with Cons.prems have "map_of (feed_dedupe_loop latest ps) k = Some q"
        by (simp only: feed_loop_step[OF Some] if_False)
      from Cons.IH[OF this] show ?thesis by auto
    qed
  qed
qed

lemma feed_loop_greatest:
  "map_of (feed_dedupe_loop latest ps) k = Some q \<Longrightarrow>
     (\<forall>p \<in> set ps. feed_key_of p = Some k \<longrightarrow>
          str_or_empty (created_at p) \<le> str_or_empty (created_at q)) \<and>
     (\<forall>q0. map_of latest k = Some q0 \<longrightarrow>
          str_or_empty (created_at q0) \<le> str_or_empty (created_at q))"
proof (induction ps arbitrary: latest)
  case Nil
  then show ?case by simp
next
  case (Cons p ps)
  show ?case
  proof (cases "feed_key_of p")
    case None
    with Cons show ?thesis by auto
  next
    case (Some key)
    show ?thesis
    proof (cases "dict_get latest key = None \<or>
        str_or_empty (created_at p) > str_or_empty (created_at (the (dict_get latest key)))")
      case True
      with Cons.prems have "map_of (feed_dedupe_loop (dict_set key p latest) ps) k = Some q"
        by (simp only: feed_loop_step[OF Some] if_True)
      from Cons.IH[OF this] show ?thesis
        using Some True by (auto simp: map_of_dict_set dict_get_def split: if_splits)
    next
      case False
      with Cons.prems have "map_of (feed_dedupe_loop latest ps) k = Some q"
        by (simp only: feed_loop_step[OF Some] if_False)
      from Cons.IH[OF this] show ?thesis
        using Some False by (auto simp: dict_get_def)
    qed
  qed
qed

lemma feed_loop_keys:
  "dom (map_of (feed_dedupe_loop latest ps)) =
     dom (map_of latest) \<union> {k. \<exists>p \<in> set ps. feed_key_of p = Some k}"
proof (induction ps arbitrary: latest)
  case Nil
  then show ?case by simp
next
  case (Cons p ps)
  show ?case
  proof (cases "feed_key_of p")
    case None
    with Cons show ?thesis by auto
  next
    case (Some key)
    have ks: "{k. \<exists>p' \<in> set (p # ps). feed_key_of p' = Some k} =
              insert key {k. \<exists>p' \<in> set ps. feed_key_of p' = Some k}"
      using Some by auto
    show ?thesis
    proof (cases "dict_get latest key = None \<or>
        str_or_empty (created_at p) > str_or_empty (created_at (the (dict_get latest key)))")
      case True
      then have "feed_dedupe_loop latest (p # ps) = feed_dedupe_loop (dict_set key p latest) ps"
        by (simp only: feed_loop_step[OF Some] if_True)
      moreover have "dom (map_of (dict_set key p latest)) = insert key (dom (map_of latest))"
        by (simp add: map_of_dict_set)
      ultimately show ?thesis
        using Cons.IH[of "dict_set key p latest"] ks by simp
    next
      case False
      then have "feed_dedupe_loop latest (p # ps) = feed_dedupe_loop latest ps"
        by (simp only: feed_loop_step[OF Some] if_False)
      moreover from False have "key \<in> dom (map_of latest)"
        by (auto simp: dict_get_def)
      ultimately show ?thesis
        using Cons.IH[of latest] ks by auto
    qed
  qed
qed

lemma feed_dedupe_distinct_loop:
  "distinct (map fst (feed_dedupe_loop [] props))"
  by (rule feed_loop_distinct) simp

lemma feed_dedupe_entry:
  assumes "(k, q) \<in> set (feed_dedupe_loop [] props)"
  shows "feed_key_of q = Some k \<and> q \<in> set props"
proof -
  from assms feed_dedupe_distinct_loop[of props]
  have "map_of (feed_dedupe_loop [] props) k = Some q" by simp
  from feed_loop_source[OF this] show ?thesis by simp
qed

lemma feed_dedupe_keyed:
  "q \<in> set (feed_dedupe_props props) \<Longrightarrow> feed_key_of q \<noteq> None"
  using feed_dedupe_entry by (fastforce simp: feed_dedupe_props_def)

lemma feed_dedupe_distinct:
  "distinct (map feed_key_of (feed_dedupe_props props))"
proof -
  let ?R = "feed_dedupe_loop [] props"
  have keys: "map feed_key_of (map snd ?R) = map (\<lambda>kq. Some (fst kq)) ?R"
    using feed_dedupe_entry[of _ _ props] by (auto simp: map_eq_conv)
  have "distinct (map (\<lambda>kq. Some (fst kq)) ?R)"
    using feed_dedupe_distinct_loop[of props]
    by (simp add: distinct_map inj_on_def comp_def)
  then show ?thesis
    by (simp add: feed_dedupe_props_def keys del: map_map)
qed

text \<open>
  C8. The deduplication of the prop feed builder keeps exactly one quote for every
  (player, game, prop-category, line, book) key that occurs in the input, and no quote
  of the input with the same key has a lexicographically greater \<open>created_at\<close> string
  than the kept one (a missing timestamp counts as the empty string).
\<close>

theorem feed_dedupe_keeps_latest:
  "distinct (map feed_key_of (feed_dedupe_props props)) \<and>
   (\<forall>q \<in> set (feed_dedupe_props props).
       q \<in> set props \<and> feed_key_of q \<noteq> None \<and>
       (\<forall>p \<in> set props. feed_key_of p = feed_key_of q \<longrightarrow>
           str_or_empty (created_at p) \<le> str_or_empty (created_at q))) \<and>
   (\<forall>p \<in> set props. feed_key_of p \<noteq> None \<longrightarrow>
       (\<exists>q \<in> set (feed_dedupe_props props). feed_key_of q = feed_key_of p))"
proof -
  let ?R = "feed_dedupe_loop [] props"
  note dist = feed_dedupe_distinct_loop[of props]
  have c2: "q \<in> set props \<and> feed_key_of q \<noteq> None \<and>
       (\<forall>p \<in> set props. feed_key_of p = feed_key_of q \<longrightarrow>
           str_or_empty (created_at p) \<le> str_or_empty (created_at q))"
    if "q \<in> set (feed_dedupe_props props)" for q
  proof -
    from that obtain k where kq: "(k, q) \<in> set ?R"
      by (auto simp: feed_dedupe_props_def)
    with dist have m: "map_of ?R k = Some q" by simp
    from feed_dedupe_entry[OF kq] feed_loop_greatest[OF m] show ?thesis by auto
  qed
  have c3: "\<exists>q \<in> set (feed_dedupe_props props). feed_key_of q = feed_key_of p"
    if "p \<in> set props" "feed_key_of p \<noteq> None" for p
  proof -
    from that obtain k where k: "feed_key_of p = Some k" by auto
    with that(1) have "k \<in> dom (map_of ?R)"
      unfolding feed_loop_keys by auto
    then obtain q where m: "map_of ?R k = Some q" by auto
    then have kq: "(k, q) \<in> set ?R" by (rule map_of_SomeD)
    then have "q \<in> set (feed_dedupe_props props)"
      by (force simp: feed_dedupe_props_def)
    with feed_dedupe_entry[OF kq] k show ?thesis by auto
  qed
  from feed_dedupe_distinct c2 c3 show ?thesis by blast
qed

theorem feed_dedupe_keeps_latest_witness:
  "feed_dedupe_props
     [points_quote ''q1'' ''Bovada'' (49 / 2) ''2024-01-01T10:00:00'',
      points_quote ''q2'' ''Bovada'' (49 / 2) ''2024-01-02T09:00:00''] =
     [points_quote ''q2'' ''Bovada'' (49 / 2) ''2024-01-02T09:00:00''] \<and>
   feed_key_of (points_quote ''q1'' ''Bovada'' (49 / 2) ''2024-01-01T10:00:00'') =
     feed_key_of (points_quote ''q2'' ''Bovada'' (49 / 2) ''2024-01-02T09:00:00'') \<and>
   str_or_empty (created_at (points_quote ''q1'' ''Bovada'' (49 / 2) ''2024-01-01T10:00:00''))
     \<le> str_or_empty
          (created_at (points_quote ''q2'' ''Bovada'' (49 / 2) ''2024-01-02T09:00:00''))"
proof -
  let ?old = "points_quote ''q1'' ''Bovada'' (49 / 2) ''2024-01-01T10:00:00''"
  let ?new = "points_quote ''q2'' ''Bovada'' (49 / 2) ''2024-01-02T09:00:00''"
  have r: "feed_dedupe_props [?old, ?new] = [?new]"
    by (simp add: feed_dedupe_props_def feed_key_of_def points_quote_def truthy_str_def
        str_or_empty_def dict_get_def)
  have k: "feed_key_of ?old = feed_key_of ?new"
    by (simp add: feed_key_of_def points_quote_def truthy_str_def str_or_empty_def)
  from feed_dedupe_keeps_latest[of "[?old, ?new]"] r k show ?thesis
    by simp
qed

text \<open>
  C9. On a quote list in the order the builder fetches it (newest first), the Bovada
  line recorded for a key is the line of the quote that comes last in the list, the
  oldest one: the assignment \<open>bovada_lines[key] = prop["line"]\<close> is made for every
  Bovada quote, without the timestamp comparison that guards \<open>latest[key]\<close>.  Here
  the quote of 2 January (line 25.5) is kept as the latest quote while the recorded
  Bovada line is 24.5, that of 1 January.
\<close>

theorem projection_dedupe_records_oldest_bovada_line:
  "projection_dedupe_props
     [points_quote ''q2'' ''Bovada'' (51 / 2) ''2024-01-02T09:00:00'',
      points_quote ''q1'' ''Bovada'' (49 / 2) ''2024-01-01T10:00:00''] =
     ([((''p1'', ''g1'', ''points''),
        points_quote ''q2'' ''Bovada'' (51 / 2) ''2024-01-02T09:00:00'')],
      [((''p1'', ''g1'', ''points''), 49 / 2)])"
  by (simp add: projection_dedupe_props_def proj_key_of_def points_quote_def truthy_str_def
      str_or_empty_def dict_get_def)


section \<open>Properties of the weighted average\<close>

lemma weighted_terms_Nil: "weighted_terms ar n pt rw i [] = []"
  by (simp add: weighted_terms_def)

lemma weighted_terms_Cons:
  "weighted_terms ar n pt rw i (st # rest) =
     (case get_prop_value_from_stat st pt of
        None \<Rightarrow> weighted_terms ar n pt rw (Suc i) rest
      | Some v \<Rightarrow> (v, record_weight ar n rw i) # weighted_terms ar n pt rw (Suc i) rest)"
  by (simp add: weighted_terms_def split: option.splits)

lemma weighted_loop_sums:
  "weighted_loop ar n pt rw i stats (tv, tw) =
     (foldl (\<lambda>acc x. rnd ar (acc + x)) tv
        (map (\<lambda>(v, w). rnd ar (v * w)) (weighted_terms ar n pt rw i stats)),
      foldl (\<lambda>acc x. rnd ar (acc + x)) tw
        (map snd (weighted_terms ar n pt rw i stats)))"
  by (induction stats arbitrary: i tv tw)
     (auto simp: weighted_terms_Nil weighted_terms_Cons record_weight_def Let_def
           split: option.splits)

lemma weighted_terms_empty_iff:
  "weighted_terms ar n pt rw i stats = [] \<longleftrightarrow>
     (\<forall>st \<in> set stats. get_prop_value_from_stat st pt = None)"
  by (induction stats arbitrary: i)
     (auto simp: weighted_terms_Nil weighted_terms_Cons split: option.splits)

lemma record_weight_ge1:
  assumes "float_rounding ar" and "0 \<le> rw"
  shows "1 \<le> record_weight ar n rw i"
proof -
  from assms(1) have mono: "\<And>x y. x \<le> y \<Longrightarrow> rnd ar x \<le> rnd ar y"
    and r0: "rnd ar 0 = 0" and r1: "rnd ar 1 = 1"
    by (simp_all add: float_rounding_def)
  have "0 \<le> real (n - i) * rw"
    using assms(2) by simp
  then have "rnd ar 0 \<le> rnd ar (real (n - i) * rw)"
    by (rule mono)
  then have "1 \<le> 1 + rnd ar (real (n - i) * rw)"
    by (simp add: r0)
  then have "rnd ar 1 \<le> rnd ar (1 + rnd ar (real (n - i) * rw))"
    by (rule mono)
  then show ?thesis
    by (simp add: r1 record_weight_def)
qed

lemma record_weight_mono:
  assumes "float_rounding ar" and "0 \<le> rw" and "i \<le> j"
  shows "record_weight ar n rw j \<le> record_weight ar n rw i"
proof -
  from assms(1) have mono: "\<And>x y. x \<le> y \<Longrightarrow> rnd ar x \<le> rnd ar y"
    by (simp add: float_rounding_def)
  have "real (n - j) \<le> real (n - i)"
    using assms(3) by simp
  then have "real (n - j) * rw \<le> real (n - i) * rw"
    using assms(2) by (rule mult_right_mono)
  then have "rnd ar (real (n - j) * rw) \<le> rnd ar (real (n - i) * rw)"
    by (rule mono)
  then have "1 + rnd ar (real (n - j) * rw) \<le> 1 + rnd ar (real (n - i) * rw)"
    by simp
  then show ?thesis
    unfolding record_weight_def by (rule mono)
qed

lemma weighted_terms_weights:
  "\<forall>(v, w) \<in> set (weighted_terms ar n pt rw i stats). \<exists>k. w = record_weight ar n rw k"
  by (induction stats arbitrary: i)
     (auto simp: weighted_terms_Nil weighted_terms_Cons split: option.splits)

lemma total_weight_ge1:
  assumes "float_rounding ar"
  shows "ws \<noteq> [] \<Longrightarrow> \<forall>w \<in> set ws. 1 \<le> w \<Longrightarrow> 0 \<le> acc \<Longrightarrow>
           1 \<le> foldl (\<lambda>acc x. rnd ar (acc + x)) acc ws"
proof (induction ws arbitrary: acc)
  case Nil
  then show ?case by simp
next
  case (Cons w ws)
  from assms have mono: "\<And>x y. x \<le> y \<Longrightarrow> rnd ar x \<le> rnd ar y"
    and r1: "rnd ar 1 = 1"
    by (simp_all add: float_rounding_def)
  have "1 \<le> acc + w"
    using Cons.prems by simp
  then have "rnd ar 1 \<le> rnd ar (acc + w)"
    by (rule mono)
  then have step: "1 \<le> rnd ar (acc + w)"
    by (simp add: r1)
  show ?case
  proof (cases "ws = []")
    case True
    with step show ?thesis by simp
  next
    case False
    from step have "0 \<le> rnd ar (acc + w)" by simp
    with Cons.IH[OF False] Cons.prems(2) show ?thesis by simp
  qed
qed

lemma weighted_average_unfold:
  "calculate_weighted_average ar stats pt rw =
     (if stats = [] then None
      else if running_sum ar (map snd (weighted_terms ar (length stats) pt rw 0 stats)) = 0
      then None
      else Some (rnd ar
             (running_sum ar
                (map (\<lambda>(v, w). rnd ar (v * w)) (weighted_terms ar (length stats) pt rw 0 stats))
              / running_sum ar (map snd (weighted_terms ar (length stats) pt rw 0 stats)))))"
  by (simp add: calculate_weighted_average_def weighted_loop_sums running_sum_def)

text \<open>
  C4.  The recency weight is a weight increment per game (the docstring's "10% more
  weight per game back"; the callers pass 0.1 and 0.15), so it is not negative.  For
  such a weight, and in every arithmetic whose rounding is monotone and keeps 0 and 1,
  \<open>calculate_weighted_average\<close> returns None exactly when the sequence is empty or no
  record has a value.  Otherwise it returns \<open>sum (v * w) / sum w\<close> over the records that
  have a value, where the record at position \<open>i\<close> of the \<open>N\<close> input records (0-indexed,
  most recent first, records without a value keeping their position) has the weight
  \<open>1 + (N - i) * recency_weight\<close>; an earlier position never weighs less than a later
  one, and in exact arithmetic with a positive recency weight it weighs strictly more,
  so that the most recent entry has the highest weight.
\<close>

theorem weighted_average_spec:
  assumes "float_rounding ar" and "0 \<le> rw"
  shows "(calculate_weighted_average ar stats pt rw = None \<longleftrightarrow>
            stats = [] \<or> (\<forall>st \<in> set stats. get_prop_value_from_stat st pt = None)) \<and>
         (calculate_weighted_average ar stats pt rw \<noteq> None \<longrightarrow>
            calculate_weighted_average ar stats pt rw =
              Some (rnd ar
                (running_sum ar
                   (map (\<lambda>(v, w). rnd ar (v * w))
                      (weighted_terms ar (length stats) pt rw 0 stats))
                 / running_sum ar
                     (map snd (weighted_terms ar (length stats) pt rw 0 stats))))) \<and>
         (\<forall>i j. i \<le> j \<longrightarrow>
            record_weight ar (length stats) rw j \<le> record_weight ar (length stats) rw i) \<and>
         (calculate_weighted_average exact_arith stats pt rw \<noteq> None \<longrightarrow>
            calculate_weighted_average exact_arith stats pt rw =
              Some (sum_list (map (\<lambda>(v, w). v * w)
                                (weighted_terms exact_arith (length stats) pt rw 0 stats))
                    / sum_list (map snd
                                (weighted_terms exact_arith (length stats) pt rw 0 stats)))) \<and>
         (\<forall>i. record_weight exact_arith (length stats) rw i =
                1 + real (length stats - i) * rw) \<and>
         (0 < rw \<longrightarrow>
            (\<forall>i j. i < j \<and> j \<le> length stats \<longrightarrow>
               record_weight exact_arith (length stats) rw j
                 < record_weight exact_arith (length stats) rw i))"
  (is "?none \<and> ?quot \<and> ?order \<and> ?exact_value \<and> ?exact_weight \<and> ?exact_order")
proof -
  let ?ts = "weighted_terms ar (length stats) pt rw 0 stats"
  have pos: "1 \<le> running_sum ar (map snd ?ts)" if "?ts \<noteq> []"
  proof -
    have "\<forall>w \<in> set (map snd ?ts). 1 \<le> w"
      using weighted_terms_weights[of ar "length stats" pt rw 0 stats]
        record_weight_ge1[OF assms] by fastforce
    moreover from that have "map snd ?ts \<noteq> []" by simp
    ultimately show ?thesis
      unfolding running_sum_def using total_weight_ge1[OF assms(1)] by simp
  qed
  have none: ?none
  proof (cases "?ts = []")
    case True
    then have "running_sum ar (map snd ?ts) = 0"
      by (simp add: running_sum_def)
    with True show ?thesis
      using weighted_terms_empty_iff[of ar "length stats" pt rw 0 stats]
      by (simp add: weighted_average_unfold)
  next
    case False
    with pos have "running_sum ar (map snd ?ts) \<noteq> 0" by fastforce
    moreover from False have "stats \<noteq> []"
      by (auto simp: weighted_terms_Nil)
    ultimately show ?thesis
      using False weighted_terms_empty_iff[of ar "length stats" pt rw 0 stats]
      by (simp add: weighted_average_unfold)
  qed
  have val: ?quot
    by (simp add: weighted_average_unfold split: if_splits)
  have order: ?order
    using record_weight_mono[OF assms] by blast
  have rs: "running_sum exact_arith xs = sum_list xs" for xs
  proof -
    have "foldl (\<lambda>acc x. acc + x) a xs = a + sum_list xs" for a :: real
      by (induction xs arbitrary: a) simp_all
    then show ?thesis
      by (simp add: running_sum_def exact_simps)
  qed
  have exact_value: ?exact_value
    by (simp add: weighted_average_unfold rs exact_simps split: if_splits)
  have exact_weight: ?exact_weight
    by (simp add: record_weight_def exact_simps)
  have exact_order: ?exact_order
  proof (intro impI allI)
    fix i j
    assume rwpos: "0 < rw" and ij: "i < j \<and> j \<le> length stats"
    then have "real (length stats - j) < real (length stats - i)"
      by simp
    with rwpos have "real (length stats - j) * rw < real (length stats - i) * rw"
      by simp
    then show "record_weight exact_arith (length stats) rw j
                 < record_weight exact_arith (length stats) rw i"
      by (simp add: record_weight_def exact_simps)
  qed
  from none val order exact_value exact_weight exact_order show ?thesis
    by (intro conjI)
qed

theorem weighted_average_spec_witness:
  "float_rounding exact_arith \<and> (0::real) \<le> 1 / 10 \<and>
   calculate_weighted_average exact_arith (map stat_with_points [30, 20, 10]) ''points''
     (1 / 10) = Some (185 / 9) \<and>
   map stat_with_points [30, 20, 10] \<noteq> [] \<and>
   record_weight exact_arith 3 (1 / 10) 0 = 13 / 10 \<and>
   record_weight exact_arith 3 (1 / 10) 2 = 11 / 10"
proof -
  let ?stats = "map stat_with_points [30, 20, (10::real)]"
  have h2: "(0::real) \<le> 1 / 10" by simp
  have len: "length ?stats = 3" by simp
  have ts: "weighted_terms exact_arith 3 ''points'' (1 / 10) 0 ?stats =
              [(30, 13 / 10), (20, 12 / 10), (10, 11 / 10)]"
    by (simp add: weighted_terms_Cons weighted_terms_Nil stat_with_points_def
        get_prop_value_from_stat_def record_weight_def exact_simps)
  have vals: "\<not> (?stats = [] \<or>
                 (\<forall>st \<in> set ?stats. get_prop_value_from_stat st ''points'' = None))"
    by (simp add: stat_with_points_def get_prop_value_from_stat_def)
  note t = weighted_average_spec[OF float_rounding_exact h2, of ?stats "''points''"]
  from t vals have some:
    "calculate_weighted_average exact_arith ?stats ''points'' (1 / 10) \<noteq> None"
    by blast
  with t have "calculate_weighted_average exact_arith ?stats ''points'' (1 / 10) =
      Some (sum_list (map (\<lambda>(v, w). v * w)
                        (weighted_terms exact_arith (length ?stats) ''points'' (1 / 10) 0 ?stats))
            / sum_list (map snd
                        (weighted_terms exact_arith (length ?stats) ''points'' (1 / 10) 0
                           ?stats)))"
    by blast
  then have v: "calculate_weighted_average exact_arith ?stats ''points'' (1 / 10) =
      Some (185 / 9)"
    unfolding len ts by simp
  from t have w: "\<forall>i. record_weight exact_arith (length ?stats) (1 / 10) i =
                1 + real (length ?stats - i) * (1 / 10)"
    by blast
  have w0: "record_weight exact_arith 3 (1 / 10) 0 = 13 / 10"
    using w[rule_format, of 0] unfolding len by simp
  have w2: "record_weight exact_arith 3 (1 / 10) 2 = 11 / 10"
    using w[rule_format, of 2] unfolding len by simp
  from float_rounding_exact h2 v w0 w2 show ?thesis
    by simp
qed


section \<open>Properties of the opponent defense rating\<close>

lemma league_average_pos: "0 < league_average exact_arith pt"
  by (simp add: league_average_def exact_simps)

lemma clamp_bounds:
  "(85 / 100 :: real) \<le> max (85 / 100) (min (115 / 100) x)"
  "max (85 / 100) (min (115 / 100) x) \<le> (115 / 100 :: real)"
  by (simp_all add: max_def min_def)

lemma defense_rating_cases:
  "calculate_opponent_defense_rating exact_arith d opp pt =
     (case q_opponent_games d opp of
        None \<Rightarrow> 1
      | Some gs \<Rightarrow>
          if length gs < 10 \<or> length (defense_prop_values gs pt) < 5 then 1
          else max (85 / 100)
                 (min (115 / 100)
                    (sum_list (defense_prop_values gs pt)
                       / real (length (defense_prop_values gs pt)) / league_average exact_arith pt)))"
  using league_average_pos[of pt]
  by (simp add: calculate_opponent_defense_rating_def Let_def exact_simps split: option.splits)

lemma league_average_pos_rounded:
  assumes "float_rounding ar"
  shows "0 < league_average ar pt"
proof -
  have "rnd ar 1 \<le> rnd ar (9 / 5)"
    by (rule rnd_mono[OF assms]) simp
  then have "0 < rnd ar (9 / 5)"
    using assms by (simp add: float_rounding_def)
  then show ?thesis
    by (simp add: league_average_def)
qed

lemma rounded_clamp_bounds:
  assumes "float_rounding ar"
  shows "rnd ar (85 / 100) \<le> max (rnd ar (85 / 100)) (min (rnd ar (115 / 100)) x)"
    and "max (rnd ar (85 / 100)) (min (rnd ar (115 / 100)) x) \<le> rnd ar (115 / 100)"
    and "rnd ar (85 / 100) \<le> 1" and "1 \<le> rnd ar (115 / 100)"
proof -
  have lo: "rnd ar (85 / 100) \<le> rnd ar 1"
    by (rule rnd_mono[OF assms]) simp
  have hi: "rnd ar 1 \<le> rnd ar (115 / 100)"
    by (rule rnd_mono[OF assms]) simp
  from lo show l1: "rnd ar (85 / 100) \<le> 1"
    using assms by (simp add: float_rounding_def)
  from hi show h1: "1 \<le> rnd ar (115 / 100)"
    using assms by (simp add: float_rounding_def)
  show "rnd ar (85 / 100) \<le> max (rnd ar (85 / 100)) (min (rnd ar (115 / 100)) x)"
    by simp
  from l1 h1 show "max (rnd ar (85 / 100)) (min (rnd ar (115 / 100)) x) \<le> rnd ar (115 / 100)"
    by simp
qed

lemma defense_rating_rounded_cases:
  assumes "float_rounding ar"
  shows "calculate_opponent_defense_rating ar d opp pt =
     (case q_opponent_games d opp of
        None \<Rightarrow> 1
      | Some gs \<Rightarrow>
          if length gs < 10 \<or> length (defense_prop_values gs pt) < 5 then 1
          else max (rnd ar (85 / 100))
                 (min (rnd ar (115 / 100))
                    (rnd ar (rnd ar (py_sum ar (defense_prop_values gs pt)
                                       / real (length (defense_prop_values gs pt)))
                             / league_average ar pt))))"
  using league_average_pos_rounded[OF assms, of pt]
  by (simp add: calculate_opponent_defense_rating_def Let_def split: option.splits)

lemma defense_rating_rounded:
  assumes "float_rounding ar"
  shows "(\<forall>gs. q_opponent_games d opp = Some gs \<and> 10 \<le> length gs \<and>
            5 \<le> length (defense_prop_values gs pt) \<longrightarrow>
          calculate_opponent_defense_rating ar d opp pt =
            max (rnd ar (85 / 100))
              (min (rnd ar (115 / 100))
                 (rnd ar (rnd ar (py_sum ar (defense_prop_values gs pt)
                                    / real (length (defense_prop_values gs pt)))
                          / league_average ar pt)))) \<and>
         (\<forall>gs. q_opponent_games d opp = Some gs \<and>
            (length gs < 10 \<or> length (defense_prop_values gs pt) < 5) \<longrightarrow>
          calculate_opponent_defense_rating ar d opp pt = 1) \<and>
         rnd ar (85 / 100) \<le> calculate_opponent_defense_rating ar d opp pt \<and>
         calculate_opponent_defense_rating ar d opp pt \<le> rnd ar (115 / 100)"
    (is "?a \<and> ?b \<and> ?c")
proof (intro conjI)
  show ?a
    by (simp add: defense_rating_rounded_cases[OF assms])
  show ?b
    by (auto simp: defense_rating_rounded_cases[OF assms])
  show "rnd ar (85 / 100) \<le> calculate_opponent_defense_rating ar d opp pt"
    using rounded_clamp_bounds[OF assms]
    by (simp add: defense_rating_rounded_cases[OF assms] split: option.splits)
  show "calculate_opponent_defense_rating ar d opp pt \<le> rnd ar (115 / 100)"
    using rounded_clamp_bounds[OF assms]
    by (simp add: defense_rating_rounded_cases[OF assms] split: option.splits)
qed

lemmas defense_eval_defs =
  calculate_opponent_defense_rating_def db_opponent_games_def empty_db_def
  claimed_defense_rating_def defense_prop_values_def defense_value_def
  stat_with_points_def league_average_def exact_simps Let_def

text \<open>
  C5, as stated, fails: when the query returns five games, all with 24 points, five
  qualifying games exist and the clamped ratio is 1.15 (24 / 12 = 2), but the function
  returns 1, because fewer than ten records were returned (in every arithmetic: the
  branch computes nothing).
\<close>

theorem defense_rating_five_games_neutral:
  "calculate_opponent_defense_rating exact_arith
     (db_opponent_games (map stat_with_points [24, 24, 24, 24, 24])) ''NYK'' ''points'' = 1 \<and>
   length (defense_prop_values (map stat_with_points [24, 24, 24, 24, 24]) ''points'') = 5 \<and>
   claimed_defense_rating (map stat_with_points [24, 24, 24, 24, 24]) ''points'' = 115 / 100"
  by (simp add: defense_eval_defs)

text \<open>
  C5, amended.  When the query returns at least 10 records of which at least 5 qualify
  (a positive value of points, rebounds, assists or their sum), the rating is the mean
  qualifying value divided by the league average of the prop type, clamped to
  [0.85, 1.15]; with fewer than 10 records or fewer than 5 qualifying ones it is exactly
  1; and it always lies in [0.85, 1.15].  This is stated first for exact arithmetic, and
  then for every arithmetic whose rounding is monotone and keeps 0 and 1: there the mean,
  the ratio and the two bounds are the rounded ones.
\<close>

theorem defense_rating_spec:
  "(\<forall>gs. q_opponent_games d opp = Some gs \<and> 10 \<le> length gs \<and>
         5 \<le> length (defense_prop_values gs pt) \<longrightarrow>
      calculate_opponent_defense_rating exact_arith d opp pt =
        max (85 / 100)
          (min (115 / 100)
             (sum_list (defense_prop_values gs pt) / real (length (defense_prop_values gs pt))
                / league_average exact_arith pt))) \<and>
   (\<forall>gs. q_opponent_games d opp = Some gs \<and>
         (length gs < 10 \<or> length (defense_prop_values gs pt) < 5) \<longrightarrow>
      calculate_opponent_defense_rating exact_arith d opp pt = 1) \<and>
   85 / 100 \<le> calculate_opponent_defense_rating exact_arith d opp pt \<and>
   calculate_opponent_defense_rating exact_arith d opp pt \<le> 115 / 100 \<and>
   (\<forall>ar. float_rounding ar \<longrightarrow>
      (\<forall>gs. q_opponent_games d opp = Some gs \<and> 10 \<le> length gs \<and>
            5 \<le> length (defense_prop_values gs pt) \<longrightarrow>
          calculate_opponent_defense_rating ar d opp pt =
            max (rnd ar (85 / 100))
              (min (rnd ar (115 / 100))
                 (rnd ar (rnd ar (py_sum ar (defense_prop_values gs pt)
                                    / real (length (defense_prop_values gs pt)))
                          / league_average ar pt)))) \<and>
      (\<forall>gs. q_opponent_games d opp = Some gs \<and>
            (length gs < 10 \<or> length (defense_prop_values gs pt) < 5) \<longrightarrow>
          calculate_opponent_defense_rating ar d opp pt = 1) \<and>
      rnd ar (85 / 100) \<le> calculate_opponent_defense_rating ar d opp pt \<and>
      calculate_opponent_defense_rating ar d opp pt \<le> rnd ar (115 / 100))"
proof -
  have a: "calculate_opponent_defense_rating exact_arith d opp pt =
        max (85 / 100)
          (min (115 / 100)
             (sum_list (defense_prop_values gs pt) / real (length (defense_prop_values gs pt))
                / league_average exact_arith pt))"
    if "q_opponent_games d opp = Some gs" "10 \<le> length gs"
       "5 \<le> length (defense_prop_values gs pt)" for gs
    using that by (simp add: defense_rating_cases)
  have b: "calculate_opponent_defense_rating exact_arith d opp pt = 1"
    if "q_opponent_games d opp = Some gs"
       "length gs < 10 \<or> length (defense_prop_values gs pt) < 5" for gs
    using that by (auto simp: defense_rating_cases)
  have c: "85 / 100 \<le> calculate_opponent_defense_rating exact_arith d opp pt \<and>
           calculate_opponent_defense_rating exact_arith d opp pt \<le> 115 / 100"
  proof (cases "q_opponent_games d opp")
    case None
    then show ?thesis by (simp add: defense_rating_cases)
  next
    case (Some gs)
    show ?thesis
    proof (cases "length gs < 10 \<or> length (defense_prop_values gs pt) < 5")
      case True
      with b[OF Some] show ?thesis by simp
    next
      case False
      with a[OF Some] show ?thesis
        by (simp only: not_less de_Morgan_disj clamp_bounds simp_thms)
    qed
  qed
  from a b c defense_rating_rounded[of _ d opp pt] show ?thesis by blast
qed

theorem defense_rating_spec_witness:
  "q_opponent_games
     (db_opponent_games (map stat_with_points [24, 24, 24, 24, 24, 24, 6, 6, 0, 0])) ''NYK'' =
     Some (map stat_with_points [24, 24, 24, 24, 24, 24, 6, 6, 0, 0]) \<and>
   10 \<le> length (map stat_with_points [24, 24, 24, 24, 24, 24, 6, 6, 0, (0::real)]) \<and>
   defense_prop_values (map stat_with_points [24, 24, 24, 24, 24, 24, 6, 6, 0, 0]) ''points'' =
     [24, 24, 24, 24, 24, 24, 6, 6] \<and>
   calculate_opponent_defense_rating exact_arith
     (db_opponent_games (map stat_with_points [24, 24, 24, 24, 24, 24, 6, 6, 0, 0]))
     ''NYK'' ''points'' = 115 / 100 \<and>
   float_rounding exact_arith"
proof -
  let ?gs = "map stat_with_points [24, 24, 24, 24, 24, 24, 6, 6, 0, 0]"
  have q: "q_opponent_games (db_opponent_games ?gs) ''NYK'' = Some ?gs"
    by (simp add: db_opponent_games_def empty_db_def)
  have n: "10 \<le> length ?gs"
    by simp
  have v: "defense_prop_values ?gs ''points'' = [24, 24, 24, 24, 24, 24, 6, 6]"
    by (simp add: defense_prop_values_def defense_value_def stat_with_points_def)
  have m: "5 \<le> length (defense_prop_values ?gs ''points'')"
    unfolding v by simp
  from defense_rating_spec[of "db_opponent_games ?gs" "''NYK''" "''points''"] q n m
  have "calculate_opponent_defense_rating exact_arith (db_opponent_games ?gs) ''NYK'' ''points'' =
          max (85 / 100)
            (min (115 / 100)
               (sum_list (defense_prop_values ?gs ''points'')
                  / real (length (defense_prop_values ?gs ''points''))
                  / league_average exact_arith ''points''))"
    by blast
  then have "calculate_opponent_defense_rating exact_arith (db_opponent_games ?gs) ''NYK'' ''points'' =
               115 / 100"
    unfolding v by (simp add: league_average_def)
  with q n v float_rounding_exact show ?thesis by blast
qed


section \<open>Properties of the projection builder\<close>

lemma adjusted_projection_fields:
  "projected_line (adjusted_projection ar d pid pt opp h gid bov recent pavg base0 source) \<noteq> None"
  "injury_status (adjusted_projection ar d pid pt opp h gid bov recent pavg base0 source) =
     Some (status (get_injury_status ar d pid))"
  "baseline_source (adjusted_projection ar d pid pt opp h gid bov recent pavg base0 source) =
     Some source"
  "bovada_line (adjusted_projection ar d pid pt opp h gid bov recent pavg base0 source) = bov"
  "factor baseline (adjusted_projection ar d pid pt opp h gid bov recent pavg base0 source) =
     Some base0"
  "factor injury_adjustment
     (adjusted_projection ar d pid pt opp h gid bov recent pavg base0 source) =
     Some (impact_multiplier (get_injury_status ar d pid))"
  by (simp_all add: adjusted_projection_def factor_def Let_def)

lemma adjusted_projection_line:
  "projected_line (adjusted_projection ar d pid pt opp h gid bov recent pavg base0 source) =
     factor (\<lambda>f. py_round ar (projected_from ar base0 opp gid f) 1)
       (adjusted_projection ar d pid pt opp h gid bov recent pavg base0 source)"
  by (simp add: adjusted_projection_def factor_def projected_from_def Let_def
           split: option.splits)

lemma calculate_projection_cases:
  "calculate_projection ar d pid pt opp h gid bl =
     (case choose_baseline (effective_bovada_line d pid pt gid bl)
             (recent_average ar (load_player_recent_stats d pid pt 15) pt) of
        None \<Rightarrow> null_projection
      | Some (base0, source) \<Rightarrow>
          adjusted_projection ar d pid pt opp h gid (effective_bovada_line d pid pt gid bl)
            (load_player_recent_stats d pid pt 15)
            (recent_average ar (load_player_recent_stats d pid pt 15) pt) base0 source)"
  by (simp add: calculate_projection_def Let_def)

lemma recent_average_eq:
  "recent_average ar recent pt = calculate_weighted_average ar recent pt (rnd ar (15 / 100))"
  by (simp add: recent_average_def calculate_weighted_average_def)

lemma effective_bovada_cases:
  "effective_bovada_line d pid pt gid (Some b) = Some b"
  "truthy_str gid \<Longrightarrow>
     effective_bovada_line d pid pt gid None = get_bovada_line d pid (str_or_empty gid) pt"
  "\<not> truthy_str gid \<Longrightarrow> effective_bovada_line d pid pt gid None = None"
  by (simp_all add: effective_bovada_line_def)

lemma projection_injury_fields:
  "projected_line (calculate_projection ar d pid pt opp h gid bl) \<noteq> None \<Longrightarrow>
     injury_status (calculate_projection ar d pid pt opp h gid bl) =
       Some (status (get_injury_status ar d pid)) \<and>
     factor injury_adjustment (calculate_projection ar d pid pt opp h gid bl) =
       Some (impact_multiplier (get_injury_status ar d pid))"
  by (auto simp: calculate_projection_cases adjusted_projection_fields null_projection_def
           split: option.splits)

lemma projection_null_fields:
  "projected_line (calculate_projection ar d pid pt opp h gid bl) = None \<Longrightarrow>
     injury_status (calculate_projection ar d pid pt opp h gid bl) = None \<and>
     factor injury_adjustment (calculate_projection ar d pid pt opp h gid bl) = None"
  by (auto simp: calculate_projection_cases adjusted_projection_fields null_projection_def
        factor_def split: option.splits)

lemma projection_baseline_cases:
  "(\<forall>b. effective_bovada_line d pid pt gid supplied = Some b \<longrightarrow>
      baseline_source (calculate_projection ar d pid pt opp h gid supplied) = Some ''bovada'' \<and>
      bovada_line (calculate_projection ar d pid pt opp h gid supplied) = Some b \<and>
      factor baseline (calculate_projection ar d pid pt opp h gid supplied) = Some b \<and>
      projected_line (calculate_projection ar d pid pt opp h gid supplied) \<noteq> None \<and>
      projected_line (calculate_projection ar d pid pt opp h gid supplied) =
        factor (\<lambda>f. py_round ar (projected_from ar b opp gid f) 1)
          (calculate_projection ar d pid pt opp h gid supplied)) \<and>
   (\<forall>a. effective_bovada_line d pid pt gid supplied = None \<and>
        calculate_weighted_average ar (load_player_recent_stats d pid pt 15) pt
          (rnd ar (15 / 100)) = Some a
      \<longrightarrow>
      baseline_source (calculate_projection ar d pid pt opp h gid supplied) =
        Some ''player_avg'' \<and>
      bovada_line (calculate_projection ar d pid pt opp h gid supplied) = None \<and>
      factor baseline (calculate_projection ar d pid pt opp h gid supplied) = Some a \<and>
      projected_line (calculate_projection ar d pid pt opp h gid supplied) \<noteq> None \<and>
      projected_line (calculate_projection ar d pid pt opp h gid supplied) =
        factor (\<lambda>f. py_round ar (projected_from ar a opp gid f) 1)
          (calculate_projection ar d pid pt opp h gid supplied)) \<and>
   (effective_bovada_line d pid pt gid supplied = None \<and>
    calculate_weighted_average ar (load_player_recent_stats d pid pt 15) pt
      (rnd ar (15 / 100)) = None
      \<longrightarrow>
      projected_line (calculate_projection ar d pid pt opp h gid supplied) = None \<and>
      confidence (calculate_projection ar d pid pt opp h gid supplied) = 0 \<and>
      sample_size (calculate_projection ar d pid pt opp h gid supplied) = 0)"
  (is "?b \<and> ?a \<and> ?n")
proof (intro conjI)
  let ?recent = "load_player_recent_stats d pid pt 15"
  show ?b
  proof (intro allI impI)
    fix b
    assume e: "effective_bovada_line d pid pt gid supplied = Some b"
    have c: "calculate_projection ar d pid pt opp h gid supplied =
               adjusted_projection ar d pid pt opp h gid (Some b) ?recent
                 (recent_average ar ?recent pt) b ''bovada''"
      by (simp add: calculate_projection_cases e choose_baseline_def)
    show "baseline_source (calculate_projection ar d pid pt opp h gid supplied) =
            Some ''bovada'' \<and>
      bovada_line (calculate_projection ar d pid pt opp h gid supplied) = Some b \<and>
      factor baseline (calculate_projection ar d pid pt opp h gid supplied) = Some b \<and>
      projected_line (calculate_projection ar d pid pt opp h gid supplied) \<noteq> None \<and>
      projected_line (calculate_projection ar d pid pt opp h gid supplied) =
        factor (\<lambda>f. py_round ar (projected_from ar b opp gid f) 1)
          (calculate_projection ar d pid pt opp h gid supplied)"
      unfolding c
      by (intro conjI adjusted_projection_fields adjusted_projection_line)
  qed
  show ?a
  proof (intro allI impI, elim conjE)
    fix a
    assume e: "effective_bovada_line d pid pt gid supplied = None"
      and w: "calculate_weighted_average ar ?recent pt (rnd ar (15 / 100)) = Some a"
    have c: "calculate_projection ar d pid pt opp h gid supplied =
               adjusted_projection ar d pid pt opp h gid None ?recent (Some a) a ''player_avg''"
      using e w by (simp add: calculate_projection_cases choose_baseline_def recent_average_eq)
    show "baseline_source (calculate_projection ar d pid pt opp h gid supplied) =
        Some ''player_avg'' \<and>
      bovada_line (calculate_projection ar d pid pt opp h gid supplied) = None \<and>
      factor baseline (calculate_projection ar d pid pt opp h gid supplied) = Some a \<and>
      projected_line (calculate_projection ar d pid pt opp h gid supplied) \<noteq> None \<and>
      projected_line (calculate_projection ar d pid pt opp h gid supplied) =
        factor (\<lambda>f. py_round ar (projected_from ar a opp gid f) 1)
          (calculate_projection ar d pid pt opp h gid supplied)"
      unfolding c
      by (intro conjI adjusted_projection_fields adjusted_projection_line)
  qed
  show ?n
    by (auto simp: calculate_projection_cases null_projection_def choose_baseline_def
          recent_average_eq split: option.splits)
qed

lemma injury_none:
  "q_active_injuries d pid = Some [] \<Longrightarrow> get_injury_status ar d pid = healthy"
  by (simp add: get_injury_status_def)

lemma injury_some:
  "q_active_injuries d pid = Some (ir # rest) \<Longrightarrow> severity ir = Val s \<Longrightarrow>
     impact_multiplier (get_injury_status ar d pid) =
       max 0 (min 1 (rnd ar (1 - rnd ar (effective_impact ir (py_lower s) / 100)))) \<and>
     status (get_injury_status ar d pid) =
       (if py_lower s = [] then ''injured'' else py_lower s)"
  by (simp add: get_injury_status_def effective_impact_def severity_text_def stored_impact_def
        Let_def split: field.splits)

lemma injury_missing_severity:
  "q_active_injuries d pid = Some (ir # rest) \<Longrightarrow> severity ir = Missing \<Longrightarrow>
     impact_multiplier (get_injury_status ar d pid) =
       max 0 (min 1 (rnd ar (1 - rnd ar (effective_impact ir [] / 100)))) \<and>
     status (get_injury_status ar d pid) = ''injured''"
  by (simp add: get_injury_status_def effective_impact_def severity_text_def stored_impact_def
        Let_def split: field.splits)

lemma injury_multiplier_bounds:
  "0 \<le> impact_multiplier (get_injury_status ar d pid) \<and>
   impact_multiplier (get_injury_status ar d pid) \<le> 1"
  by (simp add: get_injury_status_def healthy_def Let_def split: option.splits list.splits)

lemma injury_stored_zero_rounded:
  assumes "float_rounding ar"
  shows "impact_multiplier
           (get_injury_status ar (db_injuries [injury_record (Val ''out'') (Val 0)]) ''p1'') = 0"
proof -
  have r: "rnd ar 1 = 1" "rnd ar 0 = 0"
    using assms by (simp_all add: float_rounding_def)
  have l: "py_lower ''out'' = ''out''"
    by code_simp
  show ?thesis
    by (simp add: get_injury_status_def db_injuries_def empty_db_def injury_record_def
        severity_text_def stored_impact_def severity_impact_def l r Let_def)
qed

text \<open>
  C6, as stated, fails on a stored percentage of 0.  For an active record with severity
  \<open>out\<close> and the explicit percentage 0 the claim gives the multiplier 1 - 0/100 = 1;
  the function reads a stored 0 as no percentage (\<open>or 0\<close>, then \<open>if impact_pct == 0\<close>),
  takes the severity default 100 and returns 0.  No operation rounds on this input
  (lemma \<open>injury_stored_zero_rounded\<close> gives the same multiplier under every rounding).
\<close>

theorem injury_stored_zero_read_as_absent:
  "q_active_injuries (db_injuries [injury_record (Val ''out'') (Val 0)]) ''p1'' =
     Some [injury_record (Val ''out'') (Val 0)] \<and>
   impact_percentage (injury_record (Val ''out'') (Val 0)) = Val 0 \<and>
   impact_multiplier
     (get_injury_status exact_arith (db_injuries [injury_record (Val ''out'') (Val 0)]) ''p1'')
     = 0 \<and>
   claimed_injury_multiplier (injury_record (Val ''out'') (Val 0)) = 1"
proof -
  have l: "py_lower ''out'' = ''out''"
    by code_simp
  show ?thesis
    by (simp add: get_injury_status_def db_injuries_def empty_db_def injury_record_def
        severity_text_def stored_impact_def severity_impact_def claimed_injury_multiplier_def
        l exact_simps Let_def)
qed

text \<open>
  C6, amended.  The multiplier always lies in [0, 1].  Without an active injury record
  it is exactly 1 and the status is healthy; every result of \<open>calculate_projection\<close> that
  has a projected line then reports \<open>injury_status = "healthy"\<close> and the injury factor 1,
  and the null result (no baseline) carries no \<open>injury_status\<close>.  With an active record
  whose severity is a string, the multiplier is \<open>1 - impact / 100\<close> clamped to [0, 1],
  where the impact is the stored percentage when there is one other than 0, and
  otherwise (key missing, null or 0) the default of the lower-cased severity: out 100,
  doubtful 50, questionable 25, probable 10, any other severity 0; the status is the
  lower-cased severity, or \<open>injured\<close> when that is empty.  A record without the severity
  key is treated as one with the empty severity.  Every operation is the rounded one of
  the arithmetic \<open>ar\<close>.
\<close>

theorem injury_adjustment_spec:
  "0 \<le> impact_multiplier (get_injury_status ar d pid) \<and>
   impact_multiplier (get_injury_status ar d pid) \<le> 1 \<and>
   (q_active_injuries d pid = Some [] \<longrightarrow>
      impact_multiplier (get_injury_status ar d pid) = 1 \<and>
      status (get_injury_status ar d pid) = ''healthy'' \<and>
      (\<forall>pt opp h gid bl.
         (projected_line (calculate_projection ar d pid pt opp h gid bl) \<noteq> None \<longrightarrow>
            injury_status (calculate_projection ar d pid pt opp h gid bl) = Some ''healthy'' \<and>
            factor injury_adjustment (calculate_projection ar d pid pt opp h gid bl) = Some 1) \<and>
         (projected_line (calculate_projection ar d pid pt opp h gid bl) = None \<longrightarrow>
            injury_status (calculate_projection ar d pid pt opp h gid bl) = None))) \<and>
   (\<forall>ir rest s. q_active_injuries d pid = Some (ir # rest) \<and> severity ir = Val s \<longrightarrow>
      impact_multiplier (get_injury_status ar d pid) =
        max 0 (min 1 (rnd ar (1 - rnd ar (effective_impact ir (py_lower s) / 100)))) \<and>
      status (get_injury_status ar d pid) =
        (if py_lower s = [] then ''injured'' else py_lower s) \<and>
      (\<forall>pt opp h gid bl.
         projected_line (calculate_projection ar d pid pt opp h gid bl) \<noteq> None \<longrightarrow>
         factor injury_adjustment (calculate_projection ar d pid pt opp h gid bl) =
           Some (max 0 (min 1 (rnd ar (1 - rnd ar (effective_impact ir (py_lower s) / 100))))))) \<and>
   (\<forall>ir rest. q_active_injuries d pid = Some (ir # rest) \<and> severity ir = Missing \<longrightarrow>
      impact_multiplier (get_injury_status ar d pid) =
        max 0 (min 1 (rnd ar (1 - rnd ar (effective_impact ir [] / 100)))) \<and>
      status (get_injury_status ar d pid) = ''injured'') \<and>
   severity_impact ''out'' = 100 \<and> severity_impact ''doubtful'' = 50 \<and>
   severity_impact ''questionable'' = 25 \<and> severity_impact ''probable'' = 10 \<and>
   severity_impact [] = 0"
proof -
  have a: "impact_multiplier (get_injury_status ar d pid) = 1 \<and>
      status (get_injury_status ar d pid) = ''healthy'' \<and>
      (\<forall>pt opp h gid bl.
         (projected_line (calculate_projection ar d pid pt opp h gid bl) \<noteq> None \<longrightarrow>
            injury_status (calculate_projection ar d pid pt opp h gid bl) = Some ''healthy'' \<and>
            factor injury_adjustment (calculate_projection ar d pid pt opp h gid bl) = Some 1) \<and>
         (projected_line (calculate_projection ar d pid pt opp h gid bl) = None \<longrightarrow>
            injury_status (calculate_projection ar d pid pt opp h gid bl) = None))"
    if "q_active_injuries d pid = Some []"
    using projection_injury_fields[of ar d pid] projection_null_fields[of ar d pid]
      injury_none[OF that, of ar]
    by (simp add: healthy_def)
  have b: "impact_multiplier (get_injury_status ar d pid) =
        max 0 (min 1 (rnd ar (1 - rnd ar (effective_impact ir (py_lower s) / 100)))) \<and>
      status (get_injury_status ar d pid) =
        (if py_lower s = [] then ''injured'' else py_lower s) \<and>
      (\<forall>pt opp h gid bl.
         projected_line (calculate_projection ar d pid pt opp h gid bl) \<noteq> None \<longrightarrow>
         factor injury_adjustment (calculate_projection ar d pid pt opp h gid bl) =
           Some (max 0 (min 1 (rnd ar (1 - rnd ar (effective_impact ir (py_lower s) / 100))))))"
    if "q_active_injuries d pid = Some (ir # rest)" "severity ir = Val s" for ir rest s
    using projection_injury_fields[of ar d pid] injury_some[OF that, of ar]
    by simp
  have c: "severity_impact ''out'' = 100 \<and> severity_impact ''doubtful'' = 50 \<and>
   severity_impact ''questionable'' = 25 \<and> severity_impact ''probable'' = 10 \<and>
   severity_impact [] = 0"
    by (simp add: severity_impact_def)
  from a b c injury_missing_severity[of d pid _ _ ar] injury_multiplier_bounds[of ar d pid]
  show ?thesis by blast
qed

theorem injury_adjustment_spec_witness:
  "q_active_injuries (db_injuries [injury_record (Val ''Doubtful'') Missing]) ''p1'' =
     Some [injury_record (Val ''Doubtful'') Missing] \<and>
   severity (injury_record (Val ''Doubtful'') Missing) = Val ''Doubtful'' \<and>
   impact_multiplier
     (get_injury_status exact_arith
        (db_injuries [injury_record (Val ''Doubtful'') Missing]) ''p1'') = 1 / 2 \<and>
   q_active_injuries (db_bovada (51 / 2)) ''p1'' = Some [] \<and>
   projected_line
     (calculate_projection exact_arith (db_bovada (51 / 2)) ''p1'' ''points'' None True
        (Some ''g1'') None) \<noteq> None \<and>
   injury_status
     (calculate_projection exact_arith (db_bovada (51 / 2)) ''p1'' ''points'' None True
        (Some ''g1'') None) = Some ''healthy'' \<and>
   projected_line
     (calculate_projection exact_arith empty_db ''p1'' ''points'' None True None None) = None \<and>
   injury_status
     (calculate_projection exact_arith empty_db ''p1'' ''points'' None True None None) = None"
proof -
  let ?ir = "injury_record (Val ''Doubtful'') Missing"
  let ?cp = "calculate_projection exact_arith (db_bovada (51 / 2)) ''p1'' ''points'' None True
        (Some ''g1'') None"
  let ?np = "calculate_projection exact_arith empty_db ''p1'' ''points'' None True None None"
  have l: "py_lower ''Doubtful'' = ''doubtful''"
    by code_simp
  have q: "q_active_injuries (db_injuries [?ir]) ''p1'' = Some (?ir # [])"
    by (simp add: db_injuries_def empty_db_def)
  have sv: "severity ?ir = Val ''Doubtful''"
    by (simp add: injury_record_def)
  from injury_adjustment_spec[of exact_arith "db_injuries [?ir]" "''p1''"] q sv
  have "impact_multiplier (get_injury_status exact_arith (db_injuries [?ir]) ''p1'') =
          max 0 (min 1 (rnd exact_arith
            (1 - rnd exact_arith (effective_impact ?ir (py_lower ''Doubtful'') / 100))))"
    by blast
  moreover have "effective_impact ?ir (py_lower ''Doubtful'') = 50"
    by (simp add: effective_impact_def injury_record_def l severity_impact_def)
  ultimately have m: "impact_multiplier
      (get_injury_status exact_arith (db_injuries [?ir]) ''p1'') = 1 / 2"
    by (simp add: exact_simps)
  have q0: "q_active_injuries (db_bovada (51 / 2)) ''p1'' = Some []"
    by (simp add: db_bovada_def empty_db_def)
  have p0: "projected_line ?cp \<noteq> None"
    by (simp add: calculate_projection_cases effective_bovada_line_def truthy_str_def
        str_or_empty_def get_bovada_line_def db_bovada_def empty_db_def choose_baseline_def
        adjusted_projection_fields)
  from injury_adjustment_spec[of exact_arith "db_bovada (51 / 2)" "''p1''"] q0 p0
  have h: "injury_status ?cp = Some ''healthy''"
    by blast
  have q1: "q_active_injuries empty_db ''p1'' = Some []"
    by (simp add: empty_db_def)
  have p1: "projected_line ?np = None"
    by (simp add: calculate_projection_cases effective_bovada_line_def truthy_str_def
        load_player_recent_stats_def empty_db_def choose_baseline_def recent_average_def
        null_projection_def)
  from injury_adjustment_spec[of exact_arith empty_db "''p1''"] q1 p1
  have n: "injury_status ?np = None"
    by blast
  from q sv m q0 p0 h p1 n show ?thesis
    by simp
qed

section \<open>Properties of the projection snapshot builder\<close>

lemma map_filter_mem:
  "r \<in> set (List.map_filter f xs) \<longleftrightarrow> (\<exists>x \<in> set xs. f x = Some r)"
  by (induction xs) (auto split: option.splits)

lemma snapshot_for_Some:
  assumes "snapshot_for ar d pm gm now bl ((pid, gid, pt), qu) = Some r"
  shows "snapshot_key r = Some (pid, gid, pt) \<and>
         (\<exists>pr. projection_for ar d pm gm bl (pid, gid, pt) = Some pr \<and>
               projected_line pr = Some (snap_projected_line r))"
  using assms
  by (auto simp: snapshot_for_def projection_for_def snapshot_key_def Let_def
           split: option.splits prod.splits)

lemma snapshot_for_emitted:
  assumes "projection_for ar d pm gm bl (pid, gid, pt) = Some pr"
    and "projected_line pr = Some x"
  shows "\<exists>r. snapshot_for ar d pm gm now bl ((pid, gid, pt), qu) = Some r \<and>
             snapshot_key r = Some (pid, gid, pt) \<and> snap_projected_line r = x \<and>
             snap_baseline_source r = baseline_source pr \<and>
             snap_bovada_line r = bovada_line pr"
proof -
  from assms(1) obtain pl g where pl: "pm pid = Some pl" and g: "gm gid = Some g"
    by (auto simp: projection_for_def split: option.splits)
  obtain o' ih where rm: "resolve_matchup (team pl) (Some g) = (o', ih)"
    by (cases "resolve_matchup (team pl) (Some g)")
  from assms(1) have pr: "pr = calculate_projection ar d pid pt o'
                             (case ih of None \<Rightarrow> True | Some h \<Rightarrow> h)
                             (Some gid) (dict_get bl (pid, gid, pt))"
    by (simp add: projection_for_def pl g rm)
  from assms(2) show ?thesis
    unfolding pr
    by (simp add: snapshot_for_def pl g rm snapshot_key_def Let_def)
qed

lemma builder_rows_projected:
  assumes "r \<in> set (projection_snapshot_rows ar d pm gm sa now fetched)"
  shows "\<exists>pr. projection_for ar d pm gm
                (snd (projection_dedupe_props (filter_by_sport sa pm fetched)))
                (snap_player_id r, snap_game_id r, snap_prop_type r) = Some pr \<and>
              projected_line pr = Some (snap_projected_line r)"
proof -
  obtain latest bl where
    lb: "projection_dedupe_props (filter_by_sport sa pm fetched) = (latest, bl)"
    by (cases "projection_dedupe_props (filter_by_sport sa pm fetched)")
  with assms obtain entry where "entry \<in> set latest"
    and e: "snapshot_for ar d pm gm now bl entry = Some r"
    by (auto simp: projection_snapshot_rows_def Let_def map_filter_mem)
  obtain pid gid pt qu where "entry = ((pid, gid, pt), qu)"
    by (metis prod_cases3 surj_pair)
  with e have "snapshot_for ar d pm gm now bl ((pid, gid, pt), qu) = Some r" by simp
  from snapshot_for_Some[OF this] show ?thesis
    by (simp add: lb snapshot_key_def)
qed

lemma builder_rows_emitted:
  assumes "(key, qu) \<in> set (fst (projection_dedupe_props (filter_by_sport sa pm fetched)))"
    and "projection_for ar d pm gm
           (snd (projection_dedupe_props (filter_by_sport sa pm fetched))) key = Some pr"
    and "projected_line pr = Some x"
  shows "\<exists>r \<in> set (projection_snapshot_rows ar d pm gm sa now fetched).
           snapshot_key r = Some key \<and> snap_projected_line r = x"
proof -
  obtain latest bl where
    lb: "projection_dedupe_props (filter_by_sport sa pm fetched) = (latest, bl)"
    by (cases "projection_dedupe_props (filter_by_sport sa pm fetched)")
  obtain pid gid pt where k: "key = (pid, gid, pt)"
    by (metis prod_cases3)
  from assms(2) lb k have "projection_for ar d pm gm bl (pid, gid, pt) = Some pr"
    by simp
  from snapshot_for_emitted[OF this assms(3), of now qu] obtain r where
    r: "snapshot_for ar d pm gm now bl ((pid, gid, pt), qu) = Some r"
       "snapshot_key r = Some (pid, gid, pt)" "snap_projected_line r = x"
    by blast
  from assms(1) lb k have "((pid, gid, pt), qu) \<in> set latest"
    by simp
  with r(1) have "r \<in> set (projection_snapshot_rows ar d pm gm sa now fetched)"
    by (auto simp: projection_snapshot_rows_def lb map_filter_mem)
  with r(2,3) k show ?thesis by blast
qed

lemma builder_rows_skipped:
  assumes "projection_for ar d pm gm
             (snd (projection_dedupe_props (filter_by_sport sa pm fetched))) key = Some pr"
    and "projected_line pr = None"
    and "r \<in> set (projection_snapshot_rows ar d pm gm sa now fetched)"
  shows "snapshot_key r \<noteq> Some key"
proof
  assume "snapshot_key r = Some key"
  then have "key = (snap_player_id r, snap_game_id r, snap_prop_type r)"
    by (simp add: snapshot_key_def)
  with builder_rows_projected[OF assms(3)] assms(1,2) show False
    by auto
qed

text \<open>
  C7.  \<open>calculate_projection\<close> takes the Bovada line as the baseline when one is
  supplied, or when none is supplied, a game id is given and the lookup finds one;
  otherwise it takes the weighted average, with recency weight 0.15, of the stats loaded
  with limit 15.  In both cases the result names the source, reports the baseline among
  its factors, and its projected line is that baseline multiplied in turn by the factors
  the result reports and rounded to one decimal.  When neither exists it returns the
  result with a null projected line, confidence 0 and sample size 0 (the function is
  total: there is no error result).  In a run of the Projection Snapshot Builder every
  emitted row belongs to a key whose projection has the row's projected line; a key
  whose projection is null has no row; and every deduplicated key whose projection has a
  projected line has a row with that line.  All of it holds in every arithmetic \<open>ar\<close>.
\<close>

theorem projection_baseline_and_skip:
  "(\<forall>b. supplied = Some b \<or>
         (supplied = None \<and> truthy_str gid \<and>
          get_bovada_line d pid (str_or_empty gid) pt = Some b) \<longrightarrow>
      baseline_source (calculate_projection ar d pid pt opp h gid supplied) = Some ''bovada'' \<and>
      bovada_line (calculate_projection ar d pid pt opp h gid supplied) = Some b \<and>
      factor baseline (calculate_projection ar d pid pt opp h gid supplied) = Some b \<and>
      projected_line (calculate_projection ar d pid pt opp h gid supplied) \<noteq> None \<and>
      projected_line (calculate_projection ar d pid pt opp h gid supplied) =
        factor (\<lambda>f. py_round ar (projected_from ar b opp gid f) 1)
          (calculate_projection ar d pid pt opp h gid supplied)) \<and>
   (\<forall>a. supplied = None \<and>
        (\<not> truthy_str gid \<or> get_bovada_line d pid (str_or_empty gid) pt = None) \<and>
        calculate_weighted_average ar (load_player_recent_stats d pid pt 15) pt
          (rnd ar (15 / 100)) = Some a
      \<longrightarrow>
      baseline_source (calculate_projection ar d pid pt opp h gid supplied) =
        Some ''player_avg'' \<and>
      bovada_line (calculate_projection ar d pid pt opp h gid supplied) = None \<and>
      factor baseline (calculate_projection ar d pid pt opp h gid supplied) = Some a \<and>
      projected_line (calculate_projection ar d pid pt opp h gid supplied) \<noteq> None \<and>
      projected_line (calculate_projection ar d pid pt opp h gid supplied) =
        factor (\<lambda>f. py_round ar (projected_from ar a opp gid f) 1)
          (calculate_projection ar d pid pt opp h gid supplied)) \<and>
   (supplied = None \<and>
    (\<not> truthy_str gid \<or> get_bovada_line d pid (str_or_empty gid) pt = None) \<and>
    calculate_weighted_average ar (load_player_recent_stats d pid pt 15) pt
      (rnd ar (15 / 100)) = None
      \<longrightarrow>
      projected_line (calculate_projection ar d pid pt opp h gid supplied) = None \<and>
      confidence (calculate_projection ar d pid pt opp h gid supplied) = 0 \<and>
      sample_size (calculate_projection ar d pid pt opp h gid supplied) = 0) \<and>
   (\<forall>r \<in> set (projection_snapshot_rows ar d pm gm sa now fetched).
      \<exists>pr. projection_for ar d pm gm
             (snd (projection_dedupe_props (filter_by_sport sa pm fetched)))
             (snap_player_id r, snap_game_id r, snap_prop_type r) = Some pr \<and>
           projected_line pr = Some (snap_projected_line r)) \<and>
   (\<forall>key pr. projection_for ar d pm gm
               (snd (projection_dedupe_props (filter_by_sport sa pm fetched))) key = Some pr \<and>
             projected_line pr = None \<longrightarrow>
      (\<forall>r \<in> set (projection_snapshot_rows ar d pm gm sa now fetched).
         snapshot_key r \<noteq> Some key)) \<and>
   (\<forall>key qu pr x.
      (key, qu) \<in> set (fst (projection_dedupe_props (filter_by_sport sa pm fetched))) \<and>
      projection_for ar d pm gm
        (snd (projection_dedupe_props (filter_by_sport sa pm fetched))) key = Some pr \<and>
      projected_line pr = Some x \<longrightarrow>
      (\<exists>r \<in> set (projection_snapshot_rows ar d pm gm sa now fetched).
         snapshot_key r = Some key \<and> snap_projected_line r = x))"
  (is "?bovada \<and> ?average \<and> ?neither \<and> ?rows \<and> ?skipped \<and> ?emitted")
proof -
  let ?cp = "calculate_projection ar d pid pt opp h gid supplied"
  have bov: "effective_bovada_line d pid pt gid supplied = Some b"
    if "supplied = Some b \<or>
         (supplied = None \<and> truthy_str gid \<and>
          get_bovada_line d pid (str_or_empty gid) pt = Some b)" for b
    using that by (auto simp: effective_bovada_cases)
  have nobov: "effective_bovada_line d pid pt gid supplied = None"
    if "supplied = None"
       "\<not> truthy_str gid \<or> get_bovada_line d pid (str_or_empty gid) pt = None"
    using that by (cases "truthy_str gid") (auto simp: effective_bovada_cases)
  note cases = projection_baseline_cases[of d pid pt gid supplied ar opp h]
  have q1: ?bovada
  proof (intro allI impI)
    fix b
    assume "supplied = Some b \<or>
         (supplied = None \<and> truthy_str gid \<and>
          get_bovada_line d pid (str_or_empty gid) pt = Some b)"
    from cases[THEN conjunct1, rule_format, OF bov[OF this]]
    show "baseline_source ?cp = Some ''bovada'' \<and> bovada_line ?cp = Some b \<and>
      factor baseline ?cp = Some b \<and> projected_line ?cp \<noteq> None \<and>
      projected_line ?cp = factor (\<lambda>f. py_round ar (projected_from ar b opp gid f) 1) ?cp" .
  qed
  have q2: ?average
  proof (intro allI impI, elim conjE)
    fix a
    assume s: "supplied = None"
      and g: "\<not> truthy_str gid \<or> get_bovada_line d pid (str_or_empty gid) pt = None"
      and w: "calculate_weighted_average ar (load_player_recent_stats d pid pt 15) pt
                (rnd ar (15 / 100)) = Some a"
    from cases[THEN conjunct2, THEN conjunct1, rule_format, OF conjI[OF nobov[OF s g] w]]
    show "baseline_source ?cp = Some ''player_avg'' \<and> bovada_line ?cp = None \<and>
      factor baseline ?cp = Some a \<and> projected_line ?cp \<noteq> None \<and>
      projected_line ?cp = factor (\<lambda>f. py_round ar (projected_from ar a opp gid f) 1) ?cp" .
  qed
  have q3: ?neither
  proof (intro impI, elim conjE)
    assume s: "supplied = None"
      and g: "\<not> truthy_str gid \<or> get_bovada_line d pid (str_or_empty gid) pt = None"
      and w: "calculate_weighted_average ar (load_player_recent_stats d pid pt 15) pt
                (rnd ar (15 / 100)) = None"
    from cases[THEN conjunct2, THEN conjunct2, rule_format, OF conjI[OF nobov[OF s g] w]]
    show "projected_line ?cp = None \<and> confidence ?cp = 0 \<and> sample_size ?cp = 0" .
  qed
  have q4: ?rows
    using builder_rows_projected[of _ ar d pm gm sa now fetched] by blast
  have q5: ?skipped
    using builder_rows_skipped[of ar d pm gm sa fetched _ _ _ now] by blast
  have q6: ?emitted
    using builder_rows_emitted[of _ _ sa pm fetched ar d gm _ _ now] by blast
  from q1 q2 q3 q4 q5 q6 show ?thesis by (intro conjI)
qed

lemmas projection_eval_defs =
  calculate_projection_cases effective_bovada_line_def truthy_str_def str_or_empty_def
  get_bovada_line_def load_player_recent_stats_def load_matchup_stats_def
  load_home_away_stats_def choose_baseline_def recent_average_def
  calculate_weighted_average_def null_projection_def adjusted_projection_def
  calculate_opponent_defense_rating_def calculate_opponent_adjustment_def
  calculate_home_away_adjustment_def get_injury_status_def healthy_def falsy_num_def
  calculate_pace_adjustment_def projection_confidence_def py_round_def round_half_even_def
  factor_def projected_from_def empty_db_def db_bovada_def db_recent_stats_def
  stat_with_points_def get_prop_value_from_stat_def exact_simps Let_def

theorem projection_baseline_and_skip_witness:
  "baseline_source
     (calculate_projection exact_arith empty_db ''p1'' ''points'' None True None
        (Some (51 / 2))) = Some ''bovada'' \<and>
   projected_line
     (calculate_projection exact_arith empty_db ''p1'' ''points'' None True None
        (Some (51 / 2))) = Some (51 / 2) \<and>
   get_bovada_line (db_bovada (49 / 2)) ''p1'' ''g1'' ''points'' = Some (49 / 2) \<and>
   baseline_source
     (calculate_projection exact_arith (db_bovada (49 / 2)) ''p1'' ''points'' None True
        (Some ''g1'') None) = Some ''bovada'' \<and>
   projected_line
     (calculate_projection exact_arith (db_bovada (49 / 2)) ''p1'' ''points'' None True
        (Some ''g1'') None) = Some (49 / 2) \<and>
   calculate_weighted_average exact_arith
     (load_player_recent_stats (db_recent_stats (map stat_with_points [30, 20, 10]))
        ''p1'' ''points'' 15) ''points'' (15 / 100) = Some (270 / 13) \<and>
   baseline_source
     (calculate_projection exact_arith (db_recent_stats (map stat_with_points [30, 20, 10]))
        ''p1'' ''points'' None True None None) = Some ''player_avg'' \<and>
   projected_line
     (calculate_projection exact_arith (db_recent_stats (map stat_with_points [30, 20, 10]))
        ''p1'' ''points'' None True None None) = Some (208 / 10) \<and>
   projected_line
     (calculate_projection exact_arith empty_db ''p1'' ''points'' None True None None) = None \<and>
   map snapshot_key
     (projection_snapshot_rows exact_arith empty_db players_one games_one None ''now''
        [points_quote ''q1'' ''Bovada'' (51 / 2) ''2024-01-02'',
         (points_quote ''q2'' ''DraftKings'' (15 / 2) ''2024-01-02'')
           \<lparr>prop_type := Some ''rebounds''\<rparr>]) = [Some (''p1'', ''g1'', ''points'')] \<and>
   map snap_projected_line
     (projection_snapshot_rows exact_arith empty_db players_one games_one None ''now''
        [points_quote ''q1'' ''Bovada'' (51 / 2) ''2024-01-02'',
         (points_quote ''q2'' ''DraftKings'' (15 / 2) ''2024-01-02'')
           \<lparr>prop_type := Some ''rebounds''\<rparr>]) = [51 / 2] \<and>
   map fst
     (fst (projection_dedupe_props
        [points_quote ''q1'' ''Bovada'' (51 / 2) ''2024-01-02'',
         (points_quote ''q2'' ''DraftKings'' (15 / 2) ''2024-01-02'')
           \<lparr>prop_type := Some ''rebounds''\<rparr>])) =
     [(''p1'', ''g1'', ''points''), (''p1'', ''g1'', ''rebounds'')] \<and>
   Some (''p1'', ''g1'', ''rebounds'') \<notin>
     set (map snapshot_key
       (projection_snapshot_rows exact_arith empty_db players_one games_one None ''now''
          [points_quote ''q1'' ''Bovada'' (51 / 2) ''2024-01-02'',
           (points_quote ''q2'' ''DraftKings'' (15 / 2) ''2024-01-02'')
             \<lparr>prop_type := Some ''rebounds''\<rparr>]))"
proof -
  let ?sup = "calculate_projection exact_arith empty_db ''p1'' ''points'' None True None
        (Some (51 / 2))"
  let ?found = "calculate_projection exact_arith (db_bovada (49 / 2)) ''p1'' ''points'' None True
        (Some ''g1'') None"
  let ?d = "db_recent_stats (map stat_with_points [30, 20, 10])"
  let ?avg = "calculate_projection exact_arith ?d ''p1'' ''points'' None True None None"
  let ?null = "calculate_projection exact_arith empty_db ''p1'' ''points'' None True None None"
  let ?q1 = "points_quote ''q1'' ''Bovada'' (51 / 2) ''2024-01-02''"
  let ?q2 = "(points_quote ''q2'' ''DraftKings'' (15 / 2) ''2024-01-02'')
               \<lparr>prop_type := Some ''rebounds''\<rparr>"
  let ?rows = "projection_snapshot_rows exact_arith empty_db players_one games_one None ''now''
                 [?q1, ?q2]"
  note spec = projection_baseline_and_skip[where ar = exact_arith and pt = "''points''"
      and pid = "''p1''" and opp = None and h = True]
  \<comment> \<open>a supplied Bovada line\<close>
  have s1: "baseline_source ?sup = Some ''bovada''"
    and s2: "projected_line ?sup =
               factor (\<lambda>f. py_round exact_arith
                              (projected_from exact_arith (51 / 2) None None f) 1) ?sup"
    using spec[where supplied = "Some (51 / 2)" and gid = None and d = empty_db,
        THEN conjunct1, rule_format, OF disjI1, OF refl]
    by simp_all
  have s3: "factor (\<lambda>f. py_round exact_arith
                           (projected_from exact_arith (51 / 2) None None f) 1) ?sup =
            Some (51 / 2)"
    by (simp add: projection_eval_defs)
  \<comment> \<open>a Bovada line found by the lookup\<close>
  have g: "get_bovada_line (db_bovada (49 / 2)) ''p1'' ''g1'' ''points'' = Some (49 / 2)"
    by (simp add: get_bovada_line_def db_bovada_def empty_db_def)
  have fh: "(None :: real option) = None \<and> truthy_str (Some ''g1'') \<and>
            get_bovada_line (db_bovada (49 / 2)) ''p1'' (str_or_empty (Some ''g1'')) ''points'' =
              Some (49 / 2)"
    using g by (simp add: truthy_str_def str_or_empty_def)
  have f1: "baseline_source ?found = Some ''bovada''"
    and f2: "projected_line ?found =
               factor (\<lambda>f. py_round exact_arith
                              (projected_from exact_arith (49 / 2) None (Some ''g1'') f) 1) ?found"
    using spec[where supplied = None and gid = "Some ''g1''" and d = "db_bovada (49 / 2)",
        THEN conjunct1, rule_format, OF disjI2, OF fh]
    by simp_all
  have f3: "factor (\<lambda>f. py_round exact_arith
                           (projected_from exact_arith (49 / 2) None (Some ''g1'') f) 1) ?found =
            Some (49 / 2)"
    by (simp add: projection_eval_defs)
  \<comment> \<open>no Bovada line, a stat history\<close>
  have t: "\<not> truthy_str None"
    by (simp add: truthy_str_def)
  have w: "calculate_weighted_average exact_arith (load_player_recent_stats ?d ''p1'' ''points'' 15)
             ''points'' (15 / 100) = Some (270 / 13)"
    by (simp add: load_player_recent_stats_def db_recent_stats_def empty_db_def
        calculate_weighted_average_def stat_with_points_def get_prop_value_from_stat_def
        exact_simps)
  have ah: "(None :: real option) = None \<and>
           (\<not> truthy_str None \<or>
            get_bovada_line ?d ''p1'' (str_or_empty None) ''points'' = None) \<and>
           calculate_weighted_average exact_arith
             (load_player_recent_stats ?d ''p1'' ''points'' 15) ''points''
             (rnd exact_arith (15 / 100)) = Some (270 / 13)"
    using w t by (simp add: exact_simps)
  have a1: "baseline_source ?avg = Some ''player_avg''"
    and a2: "projected_line ?avg =
               factor (\<lambda>f. py_round exact_arith
                              (projected_from exact_arith (270 / 13) None None f) 1) ?avg"
    using spec[where supplied = None and gid = None and d = ?d,
        THEN conjunct2, THEN conjunct1, rule_format, OF ah]
    by simp_all
  have a3: "factor (\<lambda>f. py_round exact_arith
                           (projected_from exact_arith (270 / 13) None None f) 1) ?avg =
            Some (208 / 10)"
    by (simp add: projection_eval_defs)
  \<comment> \<open>neither\<close>
  have nh: "(None :: real option) = None \<and>
           (\<not> truthy_str None \<or>
            get_bovada_line empty_db ''p1'' (str_or_empty None) ''points'' = None) \<and>
           calculate_weighted_average exact_arith
             (load_player_recent_stats empty_db ''p1'' ''points'' 15) ''points''
             (rnd exact_arith (15 / 100)) = None"
    using t by (simp add: load_player_recent_stats_def empty_db_def
        calculate_weighted_average_def)
  have n1: "projected_line ?null = None"
    using spec[where supplied = None and gid = None and d = empty_db,
        THEN conjunct2, THEN conjunct2, THEN conjunct1, rule_format, OF nh]
    by simp
  \<comment> \<open>a run of the builder on a Bovada points quote and a DraftKings rebounds quote\<close>
  have rows: "map snapshot_key ?rows = [Some (''p1'', ''g1'', ''points'')] \<and>
              map snap_projected_line ?rows = [51 / 2]"
    by (simp add: projection_snapshot_rows_def filter_by_sport_def projection_dedupe_props_def
        proj_key_of_def points_quote_def dict_get_def snapshot_for_def
        players_one_def games_one_def player_one_def game_one_def resolve_matchup_def
        snapshot_key_def projection_eval_defs)
  have dd: "projection_dedupe_props (filter_by_sport None players_one [?q1, ?q2]) =
              ([((''p1'', ''g1'', ''points''), ?q1), ((''p1'', ''g1'', ''rebounds''), ?q2)],
               [((''p1'', ''g1'', ''points''), 51 / 2)])"
    by (simp add: filter_by_sport_def projection_dedupe_props_def proj_key_of_def
        points_quote_def dict_get_def truthy_str_def str_or_empty_def)
  have ks: "map fst (fst (projection_dedupe_props [?q1, ?q2])) =
              [(''p1'', ''g1'', ''points''), (''p1'', ''g1'', ''rebounds'')]"
    using dd by (simp add: filter_by_sport_def truthy_str_def)
  let ?nr = "calculate_projection exact_arith empty_db ''p1'' ''rebounds'' (Some ''NYK'') True
               (Some ''g1'') None"
  have pn: "projection_for exact_arith empty_db players_one games_one
              (snd (projection_dedupe_props (filter_by_sport None players_one [?q1, ?q2])))
              (''p1'', ''g1'', ''rebounds'') = Some ?nr \<and>
            projected_line ?nr = None"
    unfolding dd
    by (simp add: projection_for_def players_one_def games_one_def player_one_def game_one_def
        resolve_matchup_def dict_get_def projection_eval_defs)
  have sk: "\<forall>r \<in> set ?rows. snapshot_key r \<noteq> Some (''p1'', ''g1'', ''rebounds'')"
    using projection_baseline_and_skip[where ar = exact_arith and d = empty_db
        and pm = players_one and gm = games_one and sa = None and now = "''now''"
        and fetched = "[?q1, ?q2]",
        THEN conjunct2, THEN conjunct2, THEN conjunct2, THEN conjunct2, THEN conjunct1,
        rule_format, OF pn]
    by blast
  then have sk': "Some (''p1'', ''g1'', ''rebounds'') \<notin> set (map snapshot_key ?rows)"
    by auto
  from s1 s2 s3 g f1 f2 f3 w a1 a2 a3 n1 rows ks sk' show ?thesis
    by simp
qed

section \<open>Properties of the prop feed snapshot builder\<close>

lemma feed_row_for_key:
  assumes "feed_row_for ar d pm gm sm prm now q = Some r"
    and "feed_key_of q = Some k"
  shows "feed_row_key r = (case k of (a, b, c, l, bk) \<Rightarrow> (a, b, c, Some l, Some bk))"
  using assms
  by (auto simp: feed_row_for_def feed_key_of_def proj_key_of_def feed_row_key_def Let_def
        truthy_str_def str_or_empty_def
        split: option.splits prod.splits if_splits)

lemma distinct_map_filter_keys:
  assumes "distinct (map k xs)"
    and "\<And>x r. x \<in> set xs \<Longrightarrow> F x = Some r \<Longrightarrow> g r = c (k x)"
    and "inj_on c (k ` set xs)"
  shows "distinct (map g (List.map_filter F xs))"
  using assms
proof (induction xs)
  case Nil
  then show ?case by simp
next
  case (Cons x xs)
  have ih: "distinct (map g (List.map_filter F xs))"
    using Cons by (auto simp: inj_on_def)
  show ?case
  proof (cases "F x")
    case None
    with ih show ?thesis by simp
  next
    case (Some r)
    have "g r \<notin> set (map g (List.map_filter F xs))"
    proof
      assume "g r \<in> set (map g (List.map_filter F xs))"
      then obtain r' where "r' \<in> set (List.map_filter F xs)" "g r' = g r" by auto
      then obtain y where y: "y \<in> set xs" "F y = Some r'"
        by (auto simp: map_filter_mem)
      have "c (k y) = c (k x)"
        using Cons.prems(2)[of y r'] Cons.prems(2)[of x r] y Some \<open>g r' = g r\<close> by simp
      with Cons.prems(3) y(1) have "k y = k x"
        by (auto simp: inj_on_def)
      moreover from y(1) have "k y \<in> k ` set xs" by (rule imageI)
      ultimately show False using Cons.prems(1) by simp
    qed
    with ih Some show ?thesis by simp
  qed
qed

lemma upsert_row_keys:
  "set (List.map_filter conflict (upsert_row conflict r t)) =
     set (List.map_filter conflict t) \<union> (case conflict r of None \<Rightarrow> {} | Some k \<Rightarrow> {k})"
  by (induction t) (auto simp: split: option.splits)

lemma upsert_row_distinct:
  "distinct (List.map_filter conflict t) \<Longrightarrow>
     distinct (List.map_filter conflict (upsert_row conflict r t))"
proof (induction t)
  case Nil
  then show ?case by (simp split: option.splits)
next
  case (Cons x t)
  show ?case
  proof (cases "conflict r \<noteq> None \<and> conflict x = conflict r")
    case True
    with Cons.prems show ?thesis
      by (auto simp: split: option.splits)
  next
    case False
    then have step: "upsert_row conflict r (x # t) = x # upsert_row conflict r t"
      by auto
    from Cons have ih: "distinct (List.map_filter conflict (upsert_row conflict r t))"
      by (auto simp: split: option.splits)
    show ?thesis
    proof (cases "conflict x")
      case None
      with ih step show ?thesis by simp
    next
      case (Some kx)
      with Cons.prems have "kx \<notin> set (List.map_filter conflict t)"
        by simp
      moreover from False Some have "conflict r \<noteq> Some kx" by auto
      ultimately have "kx \<notin> set (List.map_filter conflict (upsert_row conflict r t))"
        by (auto simp: upsert_row_keys split: option.splits)
      with ih step Some show ?thesis by simp
    qed
  qed
qed

lemma upsert_distinct:
  "distinct (List.map_filter conflict t) \<Longrightarrow>
     distinct (List.map_filter conflict (upsert conflict chunk t))"
  unfolding upsert_def
  by (induction chunk arbitrary: t) (auto simp: upsert_row_distinct)

lemma upsert_chunks_distinct:
  "distinct (List.map_filter conflict t) \<Longrightarrow>
     distinct (List.map_filter conflict (foldl (\<lambda>t chunk. upsert conflict chunk t) t chunks))"
  by (induction chunks arbitrary: t) (auto simp: upsert_distinct)

text \<open>
  C3, as stated, fails: the upsert is keyed on \<open>prop_id\<close>, the id of the source quote,
  not on the composite key.  A first run on the quote q1 stores one row; a second run
  whose window holds a newer quote q2 for the same (player, game, prop-category, line,
  book) keeps q2 in the deduplication and upserts its row under a new \<open>prop_id\<close>, so
  that the table then holds two rows with the same composite key.  The keys of the rows
  do not depend on the arithmetic.
\<close>

theorem feed_table_two_rows_per_key:
  "map feed_row_key
     (feed_build_snapshots exact_arith empty_db players_one games_one no_stats no_projections None
        ''2024-01-02T12:00:00''
        [points_quote ''q2'' ''Bovada'' (49 / 2) ''2024-01-02T09:00:00'',
         points_quote ''q1'' ''Bovada'' (49 / 2) ''2024-01-01T10:00:00'']
        (feed_build_snapshots exact_arith empty_db players_one games_one no_stats no_projections None
           ''2024-01-01T12:00:00''
           [points_quote ''q1'' ''Bovada'' (49 / 2) ''2024-01-01T10:00:00''] [])) =
   [(''p1'', ''g1'', ''points'', Some (49 / 2), Some ''Bovada''),
    (''p1'', ''g1'', ''points'', Some (49 / 2), Some ''Bovada'')]"
  by (simp add: feed_build_snapshots_def feed_snapshot_rows_def filter_by_sport_def
      feed_dedupe_props_def feed_key_of_def points_quote_def truthy_str_def str_or_empty_def
      dict_get_def feed_row_for_def proj_key_of_def players_one_def
      games_one_def no_stats_def no_projections_def chunks_of_def upsert_def feed_row_key_def
      calculate_edge_and_hitrate_def resolve_matchup_def player_one_def game_one_def Let_def)

text \<open>
  C3, amended.  The rows one run of the Prop Feed Snapshot Builder writes have pairwise
  different (player, game, prop-category, line, book) keys, because the quotes are
  deduplicated on that key; and a table that holds at most one row per source quote id
  (\<open>prop_id\<close>) still does after the run, because the upsert is keyed on \<open>prop_id\<close>.
\<close>

theorem feed_rows_unique_per_run:
  "distinct (map feed_row_key
               (feed_snapshot_rows ar d pm gm sm prm sport_arg now fetched)) \<and>
   (distinct (List.map_filter row_prop_id table) \<longrightarrow>
      distinct (List.map_filter row_prop_id
                  (feed_build_snapshots ar d pm gm sm prm sport_arg now fetched table)))"
proof -
  let ?D = "feed_dedupe_props (filter_by_sport sport_arg pm fetched)"
  let ?c = "\<lambda>ko. case ko of
               None \<Rightarrow> ([], [], [], None, None)
             | Some (a, b, c, l, bk) \<Rightarrow> (a, b, c, Some l, Some bk)"
  have key: "feed_row_key r = ?c (feed_key_of x)"
    if "x \<in> set ?D" "feed_row_for ar d pm gm sm prm now x = Some r" for x r
  proof -
    from that(1) obtain k where k: "feed_key_of x = Some k"
      using feed_dedupe_keyed by blast
    from feed_row_for_key[OF that(2) k] k show ?thesis
      by (simp split: prod.splits)
  qed
  have inj: "inj_on ?c (feed_key_of ` set ?D)"
    by (auto simp: inj_on_def split: option.splits)
  have rows: "distinct (map feed_row_key
                 (feed_snapshot_rows ar d pm gm sm prm sport_arg now fetched))"
    unfolding feed_snapshot_rows_def
    by (rule distinct_map_filter_keys[OF feed_dedupe_distinct key inj])
  have table: "distinct (List.map_filter row_prop_id
                  (feed_build_snapshots ar d pm gm sm prm sport_arg now fetched table))"
    if "distinct (List.map_filter row_prop_id table)"
    unfolding feed_build_snapshots_def using that by (rule upsert_chunks_distinct)
  from rows table show ?thesis by blast
qed

theorem feed_rows_unique_per_run_witness:
  "distinct (List.map_filter row_prop_id
     (feed_build_snapshots exact_arith empty_db players_one games_one no_stats no_projections None
        ''2024-01-01T12:00:00''
        [points_quote ''q1'' ''Bovada'' (49 / 2) ''2024-01-01T10:00:00''] [])) \<and>
   distinct (List.map_filter row_prop_id
     (feed_build_snapshots exact_arith empty_db players_one games_one no_stats no_projections None
        ''2024-01-02T12:00:00''
        [points_quote ''q2'' ''Bovada'' (49 / 2) ''2024-01-02T09:00:00'',
         points_quote ''q1'' ''Bovada'' (49 / 2) ''2024-01-01T10:00:00'']
        (feed_build_snapshots exact_arith empty_db players_one games_one no_stats no_projections None
           ''2024-01-01T12:00:00''
           [points_quote ''q1'' ''Bovada'' (49 / 2) ''2024-01-01T10:00:00''] [])))"
proof -
  let ?t1 = "feed_build_snapshots exact_arith empty_db players_one games_one no_stats no_projections None
        ''2024-01-01T12:00:00''
        [points_quote ''q1'' ''Bovada'' (49 / 2) ''2024-01-01T10:00:00''] []"
  have ids: "List.map_filter row_prop_id ?t1 = [''q1'']"
    by (simp add: feed_build_snapshots_def feed_snapshot_rows_def filter_by_sport_def
      feed_dedupe_props_def feed_key_of_def points_quote_def truthy_str_def str_or_empty_def
      dict_get_def feed_row_for_def proj_key_of_def players_one_def
      games_one_def no_stats_def no_projections_def chunks_of_def upsert_def
      calculate_edge_and_hitrate_def resolve_matchup_def player_one_def game_one_def Let_def)
  have h: "distinct (List.map_filter row_prop_id ?t1)"
    unfolding ids by simp
  from feed_rows_unique_per_run
         [where table = ?t1 and ar = exact_arith and d = empty_db and pm = players_one and gm = games_one
            and sm = no_stats and prm = no_projections and sport_arg = None
            and now = "''2024-01-02T12:00:00''"
            and fetched = "[points_quote ''q2'' ''Bovada'' (49 / 2) ''2024-01-02T09:00:00'',
                            points_quote ''q1'' ''Bovada'' (49 / 2) ''2024-01-01T10:00:00'']"]
       h
  show ?thesis by blast
qed


end
